theory Spec2Isabelle
  imports Main "HOL-Library.Sublist"
begin

section \<open>Entity schemas (backend/server.py, the pydantic models)\<close>

text \<open>
  The four pydantic models of \<^verbatim>\<open>server.py\<close> become records with the same field names.
  The field \<^verbatim>\<open>id\<close> is written \<open>id'\<close> (\<open>id\<close> is the identity function of HOL);
  \<^verbatim>\<open>created_at\<close> is a point in time, counted in microseconds as a natural number.
  A string is a list of characters: a \<open>char\<close> stands for one character of the text,
  not for a byte of an encoding of it, so the texts of the model are those over the 256
  characters that \<open>char\<close> has.
\<close>

type_synonym datetime = nat

record Actor =
  id' :: string
  nom :: string
  age :: "int option"
  nationalite :: "string option"
  biographie :: "string option"
  photo_profil :: "string option"
  filmographie :: "string list"
  created_at :: datetime

record ActorCreate =
  nom :: string
  age :: "int option"
  nationalite :: "string option"
  biographie :: "string option"
  filmographie :: "string list"

record Movie =
  id' :: string
  nom :: string
  annee :: "int option"
  genre :: "string option"
  description :: "string option"
  photo_couverture :: "string option"
  acteurs :: "string list"
  lien_externe :: "string option"
  created_at :: datetime

record MovieCreate =
  nom :: string
  annee :: "int option"
  genre :: "string option"
  description :: "string option"
  acteurs :: "string list"
  lien_externe :: "string option"

subsection \<open>Errors\<close>

text \<open>
  \<open>HTTPException status detail\<close> is the exception the handlers raise themselves;
  \<open>RequestValidationError\<close> is the 422 answer of the framework when a body or a query
  parameter violates the declared model; \<open>InternalServerError\<close> is any other exception
  that escapes a handler (answered with status 500).
\<close>

datatype error =
    HTTPException nat string
  | RequestValidationError
  | InternalServerError

subsection \<open>Request bodies before validation\<close>

text \<open>
  A key of a JSON body is absent, present with \<^verbatim>\<open>null\<close>, or present with a value of the
  declared type. Validation against \<^verbatim>\<open>ActorCreate\<close> / \<^verbatim>\<open>MovieCreate\<close>:
  a field declared \<^verbatim>\<open>str\<close> is required and refuses \<^verbatim>\<open>null\<close>;
  a field declared \<^verbatim>\<open>Optional[...] = None\<close> takes \<^verbatim>\<open>None\<close> when absent or null;
  a field declared \<^verbatim>\<open>List[str] = Field(default_factory=list)\<close> takes \<^verbatim>\<open>[]\<close> when absent
  and refuses \<^verbatim>\<open>null\<close>.
\<close>

datatype 'a field = Absent | Null | Val 'a

record ActorCreate_body =
  nom :: "string field"
  age :: "int field"
  nationalite :: "string field"
  biographie :: "string field"
  filmographie :: "string list field"

record MovieCreate_body =
  nom :: "string field"
  annee :: "int field"
  genre :: "string field"
  description :: "string field"
  acteurs :: "string list field"
  lien_externe :: "string field"

fun required :: "'a field \<Rightarrow> error + 'a" where
  "required (Val v) = Inr v"
| "required Absent = Inl RequestValidationError"
| "required Null = Inl RequestValidationError"

fun optional :: "'a field \<Rightarrow> 'a option" where
  "optional (Val v) = Some v"
| "optional Absent = None"
| "optional Null = None"

fun default_factory_list :: "'a list field \<Rightarrow> error + 'a list" where
  "default_factory_list (Val v) = Inr v"
| "default_factory_list Absent = Inr []"
| "default_factory_list Null = Inl RequestValidationError"

definition validate_ActorCreate :: "ActorCreate_body \<Rightarrow> error + ActorCreate" where
  "validate_ActorCreate b =
     (case required (ActorCreate_body.nom b) of
        Inl e \<Rightarrow> Inl e
      | Inr n \<Rightarrow>
          (case default_factory_list (ActorCreate_body.filmographie b) of
             Inl e \<Rightarrow> Inl e
           | Inr fs \<Rightarrow>
               Inr \<lparr>ActorCreate.nom = n,
                    ActorCreate.age = optional (ActorCreate_body.age b),
                    ActorCreate.nationalite = optional (ActorCreate_body.nationalite b),
                    ActorCreate.biographie = optional (ActorCreate_body.biographie b),
                    ActorCreate.filmographie = fs\<rparr>))"

definition validate_MovieCreate :: "MovieCreate_body \<Rightarrow> error + MovieCreate" where
  "validate_MovieCreate b =
     (case required (MovieCreate_body.nom b) of
        Inl e \<Rightarrow> Inl e
      | Inr n \<Rightarrow>
          (case default_factory_list (MovieCreate_body.acteurs b) of
             Inl e \<Rightarrow> Inl e
           | Inr as \<Rightarrow>
               Inr \<lparr>MovieCreate.nom = n,
                    MovieCreate.annee = optional (MovieCreate_body.annee b),
                    MovieCreate.genre = optional (MovieCreate_body.genre b),
                    MovieCreate.description = optional (MovieCreate_body.description b),
                    MovieCreate.acteurs = as,
                    MovieCreate.lien_externe = optional (MovieCreate_body.lien_externe b)\<rparr>))"

section \<open>The document store\<close>

text \<open>
  The store is MongoDB, reached through the motor driver: it is not code of the
  repository. The model keeps the two collections \<^verbatim>\<open>db.actors\<close> and \<^verbatim>\<open>db.movies\<close>
  as lists in insertion order and gives the operations the handlers call the meaning
  the store documents for them. The handlers are the only writers and they write
  \<^verbatim>\<open>Actor.dict()\<close> / \<^verbatim>\<open>Movie.dict()\<close>, so a collection holds typed records; a query
  sees a record through its dictionary.
\<close>

datatype bson = BNull | BStr string | BInt int | BList "string list" | BDate datetime

type_synonym dict = "(string \<times> bson) list"

fun opt_str :: "string option \<Rightarrow> bson" where
  "opt_str None = BNull"
| "opt_str (Some s) = BStr s"

fun opt_int :: "int option \<Rightarrow> bson" where
  "opt_int None = BNull"
| "opt_int (Some n) = BInt n"

definition Actor_dict :: "Actor \<Rightarrow> dict" where
  "Actor_dict a =
     [(''id'', BStr (Actor.id' a)),
      (''nom'', BStr (Actor.nom a)),
      (''age'', opt_int (Actor.age a)),
      (''nationalite'', opt_str (Actor.nationalite a)),
      (''biographie'', opt_str (Actor.biographie a)),
      (''photo_profil'', opt_str (Actor.photo_profil a)),
      (''filmographie'', BList (Actor.filmographie a)),
      (''created_at'', BDate (Actor.created_at a))]"

definition ActorCreate_dict :: "ActorCreate \<Rightarrow> dict" where
  "ActorCreate_dict c =
     [(''nom'', BStr (ActorCreate.nom c)),
      (''age'', opt_int (ActorCreate.age c)),
      (''nationalite'', opt_str (ActorCreate.nationalite c)),
      (''biographie'', opt_str (ActorCreate.biographie c)),
      (''filmographie'', BList (ActorCreate.filmographie c))]"

definition Movie_dict :: "Movie \<Rightarrow> dict" where
  "Movie_dict m =
     [(''id'', BStr (Movie.id' m)),
      (''nom'', BStr (Movie.nom m)),
      (''annee'', opt_int (Movie.annee m)),
      (''genre'', opt_str (Movie.genre m)),
      (''description'', opt_str (Movie.description m)),
      (''photo_couverture'', opt_str (Movie.photo_couverture m)),
      (''acteurs'', BList (Movie.acteurs m)),
      (''lien_externe'', opt_str (Movie.lien_externe m)),
      (''created_at'', BDate (Movie.created_at m))]"

definition MovieCreate_dict :: "MovieCreate \<Rightarrow> dict" where
  "MovieCreate_dict c =
     [(''nom'', BStr (MovieCreate.nom c)),
      (''annee'', opt_int (MovieCreate.annee c)),
      (''genre'', opt_str (MovieCreate.genre c)),
      (''description'', opt_str (MovieCreate.description c)),
      (''acteurs'', BList (MovieCreate.acteurs c)),
      (''lien_externe'', opt_str (MovieCreate.lien_externe c))]"

subsection \<open>Queries\<close>

text \<open>
  The fragment of the query language the handlers build: a query dictionary is a list of
  clauses, all of which must hold. \<open>Eq v\<close> is \<^verbatim>\<open>{field: v}\<close>, \<open>Regex_i p\<close> is
  \<^verbatim>\<open>{field: {"$regex": p, "$options": "i"}}\<close>, \<open>Range lo hi\<close> is the dictionary of the
  age filter with its optional \<^verbatim>\<open>$gte\<close> and \<^verbatim>\<open>$lte\<close> entries, and \<open>Or\<close> is
  \<^verbatim>\<open>"$or"\<close> over one-field dictionaries. The regular-expression engine of the store is
  a parameter \<open>rx\<close>: \<open>rx p s\<close> says that pattern \<open>p\<close> finds a match in \<open>s\<close>, ignoring case.
\<close>

datatype cond = Eq bson | Regex_i string | Range "int option" "int option"

datatype clause = Field string cond | Or "(string \<times> cond) list"

type_synonym query = "clause list"

type_synonym regex_engine = "string \<Rightarrow> string \<Rightarrow> bool"

fun cond_holds :: "regex_engine \<Rightarrow> cond \<Rightarrow> bson option \<Rightarrow> bool" where
  "cond_holds rx (Eq v) None = (v = BNull)"
| "cond_holds rx (Eq v) (Some x) = (x = v)"
| "cond_holds rx (Regex_i p) (Some (BStr s)) = rx p s"
| "cond_holds rx (Regex_i p) (Some (BList xs)) = (\<exists>s \<in> set xs. rx p s)"
| "cond_holds rx (Regex_i p) _ = False"
| "cond_holds rx (Range None None) _ = False"
| "cond_holds rx (Range lo hi) (Some (BInt x)) =
     ((case lo of None \<Rightarrow> True | Some l \<Rightarrow> l \<le> x) \<and> (case hi of None \<Rightarrow> True | Some h \<Rightarrow> x \<le> h))"
| "cond_holds rx (Range lo hi) _ = False"

fun clause_holds :: "regex_engine \<Rightarrow> dict \<Rightarrow> clause \<Rightarrow> bool" where
  "clause_holds rx d (Field k c) = cond_holds rx c (map_of d k)"
| "clause_holds rx d (Or alts) = (\<exists>(k, c) \<in> set alts. cond_holds rx c (map_of d k))"

definition matches :: "regex_engine \<Rightarrow> query \<Rightarrow> dict \<Rightarrow> bool" where
  "matches rx q d = (\<forall>c \<in> set q. clause_holds rx d c)"

subsection \<open>Collection operations\<close>

text \<open>
  What the store takes. The driver encodes an integer in at most 8 bytes and raises
  \<^verbatim>\<open>OverflowError\<close> on any other; a point in time is kept to the millisecond. Whatever
  else makes the store refuse a document (its size) is the environment's
  \<open>store_accepts\<close>, declared below.
\<close>

definition int64 :: "int \<Rightarrow> bool" where
  "int64 n = (- 9223372036854775808 \<le> n \<and> n \<le> 9223372036854775807)"

fun encodable :: "bson \<Rightarrow> bool" where
  "encodable (BInt n) = int64 n"
| "encodable v = True"

definition dict_encodable :: "dict \<Rightarrow> bool" where
  "dict_encodable d = list_all (\<lambda>(k, v). encodable v) d"

definition milliseconds :: "datetime \<Rightarrow> datetime" where
  "milliseconds t = t - t mod 1000"

text \<open>
  \<^verbatim>\<open>insert_one(doc)\<close>: \<open>doc\<close> is the dictionary the handler passes, \<open>stored\<close> the record
  as the store keeps it, \<open>ok\<close> whether the store accepts the document. A refusal raises
  in the handler and the collection is as before.
\<close>

definition insert_one :: "bool \<Rightarrow> dict \<Rightarrow> 'd list \<Rightarrow> 'd \<Rightarrow> error + 'd list" where
  "insert_one ok doc coll stored =
     (if dict_encodable doc \<and> ok then Inr (coll @ [stored]) else Inl InternalServerError)"

definition find_one :: "('d \<Rightarrow> bool) \<Rightarrow> 'd list \<Rightarrow> 'd option" where
  "find_one p coll = List.find p coll"

text \<open>\<^verbatim>\<open>update_one\<close> without \<^verbatim>\<open>upsert\<close>: the first match is rewritten, no match changes nothing.\<close>

fun update_one :: "('d \<Rightarrow> bool) \<Rightarrow> ('d \<Rightarrow> 'd) \<Rightarrow> 'd list \<Rightarrow> 'd list" where
  "update_one p f [] = []"
| "update_one p f (d # ds) = (if p d then f d # ds else d # update_one p f ds)"

text \<open>
  \<^verbatim>\<open>update_one(filter, {"$set": upd})\<close> as the handler sees it: the driver raises when
  \<open>upd\<close> cannot be encoded, the store when it refuses the rewritten document
  (\<open>accepts\<close>); then nothing is changed.
\<close>

definition update_one_set ::
  "('d \<Rightarrow> bool) \<Rightarrow> ('d \<Rightarrow> bool) \<Rightarrow> dict \<Rightarrow> (dict \<Rightarrow> 'd \<Rightarrow> 'd) \<Rightarrow> 'd list \<Rightarrow> error + 'd list" where
  "update_one_set accepts p upd set_all coll =
     (if \<not> dict_encodable upd then Inl InternalServerError
      else (case find_one p coll of
              None \<Rightarrow> Inr coll
            | Some doc \<Rightarrow>
                if accepts (set_all upd doc) then Inr (update_one p (set_all upd) coll)
                else Inl InternalServerError))"

text \<open>\<^verbatim>\<open>delete_one\<close>: the collection without its first match, and \<^verbatim>\<open>deleted_count\<close>.\<close>

fun delete_one :: "('d \<Rightarrow> bool) \<Rightarrow> 'd list \<Rightarrow> 'd list \<times> nat" where
  "delete_one p [] = ([], 0)"
| "delete_one p (d # ds) =
     (if p d then (ds, 1) else (case delete_one p ds of (ds', n) \<Rightarrow> (d # ds', n)))"

text \<open>
  A query the store takes: every integer in it fits 8 bytes and every pattern is one the
  store accepts (\<open>valid\<close>, the environment's \<open>regex_valid\<close>).
\<close>

fun cond_accepted :: "(string \<Rightarrow> bool) \<Rightarrow> cond \<Rightarrow> bool" where
  "cond_accepted valid (Eq v) = encodable v"
| "cond_accepted valid (Regex_i p) = valid p"
| "cond_accepted valid (Range lo hi) =
     ((case lo of None \<Rightarrow> True | Some l \<Rightarrow> int64 l) \<and> (case hi of None \<Rightarrow> True | Some h \<Rightarrow> int64 h))"

fun clause_accepted :: "(string \<Rightarrow> bool) \<Rightarrow> clause \<Rightarrow> bool" where
  "clause_accepted valid (Field k c) = cond_accepted valid c"
| "clause_accepted valid (Or alts) = list_all (\<lambda>(k, c). cond_accepted valid c) alts"

definition query_accepted :: "(string \<Rightarrow> bool) \<Rightarrow> query \<Rightarrow> bool" where
  "query_accepted valid q = list_all (clause_accepted valid) q"

text \<open>
  \<^verbatim>\<open>find(query).limit(n).to_list(n)\<close>: at most \<open>n\<close> of the matching documents, in
  the order of the collection. The driver is not part of the repository; the model takes
  its \<^verbatim>\<open>to_list\<close> to refuse a negative length with \<^verbatim>\<open>ValueError\<close>. That, an integer
  the driver cannot encode and a pattern the store refuses all raise in the handler, which
  the framework answers with status 500.
\<close>

definition find_to_list ::
  "(string \<Rightarrow> bool) \<Rightarrow> regex_engine \<Rightarrow> query \<Rightarrow> ('d \<Rightarrow> dict) \<Rightarrow> int \<Rightarrow> 'd list \<Rightarrow> error + 'd list" where
  "find_to_list valid rx q to_dict n coll =
     (if n < 0 \<or> \<not> query_accepted valid q then Inl InternalServerError
      else Inr (take (nat n) (filter (\<lambda>x. matches rx q (to_dict x)) coll)))"

text \<open>\<^verbatim>\<open>distinct(key)\<close>: the values stored under the key, each once.\<close>

definition distinct_values :: "string \<Rightarrow> dict list \<Rightarrow> bson list" where
  "distinct_values k ds = remdups (List.map_filter (\<lambda>d. map_of d k) ds)"

record db =
  actors :: "Actor list"
  movies :: "Movie list"

section \<open>The environment of a request\<close>

text \<open>
  What a handler takes from outside the program: the fresh \<^verbatim>\<open>uuid4\<close> of a new record,
  the hexadecimal digits of the \<^verbatim>\<open>uuid4\<close> in an upload's file name, the clock, the
  store's regular-expression engine (which patterns it accepts, and what an accepted
  pattern finds), which documents the store accepts, the outcome of writing an upload to
  a path (\<open>None\<close> when it is written, the text of the exception otherwise), and the last
  component of a path (\<^verbatim>\<open>Path.name\<close>).
\<close>

record env =
  uuid4 :: string
  uuid4_hex :: string
  utcnow :: datetime
  regex_i :: regex_engine
  regex_valid :: "string \<Rightarrow> bool"
  store_accepts :: "dict \<Rightarrow> bool"
  disk_write :: "string \<Rightarrow> string option"
  path_name :: "string \<Rightarrow> string"

section \<open>Actor endpoints\<close>

text \<open>
  Every handler takes the environment and the store and gives back its answer together
  with the store it leaves behind. The framework validates a body before it calls the
  handler, so a refused body answers 422 and the store is as before.
\<close>

definition by_id :: "string \<Rightarrow> query" where
  "by_id i = [Field ''id'' (Eq (BStr i))]"

definition new_Actor :: "env \<Rightarrow> ActorCreate \<Rightarrow> Actor" where
  "new_Actor e c =
     \<lparr>Actor.id' = uuid4 e,
      Actor.nom = ActorCreate.nom c,
      Actor.age = ActorCreate.age c,
      Actor.nationalite = ActorCreate.nationalite c,
      Actor.biographie = ActorCreate.biographie c,
      Actor.photo_profil = None,
      Actor.filmographie = ActorCreate.filmographie c,
      Actor.created_at = utcnow e\<rparr>"

definition create_actor :: "env \<Rightarrow> db \<Rightarrow> ActorCreate_body \<Rightarrow> (error + Actor) \<times> db" where
  "create_actor e d body =
     (case validate_ActorCreate body of
        Inl err \<Rightarrow> (Inl err, d)
      | Inr actor_data \<Rightarrow>
          (let actor = new_Actor e actor_data
           in (case insert_one (store_accepts e (Actor_dict actor)) (Actor_dict actor) (actors d)
                      (actor\<lparr>Actor.created_at := milliseconds (Actor.created_at actor)\<rparr>) of
                 Inl err \<Rightarrow> (Inl err, d)
               | Inr coll \<Rightarrow> (Inr actor, d\<lparr>actors := coll\<rparr>))))"

text \<open>
  \<^verbatim>\<open>{"$set": update}\<close> on a stored record, one entry at a time. The handlers only set
  values of the field's type; any other entry leaves the record as it is.
\<close>

fun Actor_set :: "string \<times> bson \<Rightarrow> Actor \<Rightarrow> Actor" where
  "Actor_set (k, v) a =
     (if k = ''nom'' then (case v of BStr s \<Rightarrow> a\<lparr>Actor.nom := s\<rparr> | _ \<Rightarrow> a)
      else if k = ''age'' then
        (case v of BInt n \<Rightarrow> a\<lparr>Actor.age := Some n\<rparr> | BNull \<Rightarrow> a\<lparr>Actor.age := None\<rparr> | _ \<Rightarrow> a)
      else if k = ''nationalite'' then
        (case v of BStr s \<Rightarrow> a\<lparr>Actor.nationalite := Some s\<rparr>
                 | BNull \<Rightarrow> a\<lparr>Actor.nationalite := None\<rparr> | _ \<Rightarrow> a)
      else if k = ''biographie'' then
        (case v of BStr s \<Rightarrow> a\<lparr>Actor.biographie := Some s\<rparr>
                 | BNull \<Rightarrow> a\<lparr>Actor.biographie := None\<rparr> | _ \<Rightarrow> a)
      else if k = ''photo_profil'' then
        (case v of BStr s \<Rightarrow> a\<lparr>Actor.photo_profil := Some s\<rparr>
                 | BNull \<Rightarrow> a\<lparr>Actor.photo_profil := None\<rparr> | _ \<Rightarrow> a)
      else if k = ''filmographie'' then
        (case v of BList xs \<Rightarrow> a\<lparr>Actor.filmographie := xs\<rparr> | _ \<Rightarrow> a)
      else a)"

definition Actor_set_all :: "dict \<Rightarrow> Actor \<Rightarrow> Actor" where
  "Actor_set_all upd a = fold Actor_set upd a"

text \<open>\<^verbatim>\<open>{k: v for k, v in update.dict().items() if v is not None}\<close>\<close>

definition update_data :: "dict \<Rightarrow> dict" where
  "update_data items = filter (\<lambda>(k, v). v \<noteq> BNull) items"

text \<open>
  \<^verbatim>\<open>upload_actor_photo\<close>: the file is written under a fresh name and the record, if
  there is one, gets the new reference; the handler does not look the record up.
\<close>

text \<open>A part of the upload may declare no content type: then \<^verbatim>\<open>content_type\<close> is \<^verbatim>\<open>None\<close>.\<close>

record UploadFile =
  filename :: string
  content_type :: "string option"

fun startswith :: "string \<Rightarrow> string \<Rightarrow> bool" where
  "startswith s pre = (take (length pre) s = pre)"

text \<open>\<^verbatim>\<open>s.split(sep)\<close>: the pieces between the separators, never an empty list.\<close>

fun str_split :: "char \<Rightarrow> string \<Rightarrow> string list" where
  "str_split sep [] = [[]]"
| "str_split sep (c # cs) =
     (if c = sep then [] # str_split sep cs
      else (case str_split sep cs of [] \<Rightarrow> [[c]] | w # ws \<Rightarrow> (c # w) # ws))"

definition file_extension :: "string \<Rightarrow> string" where
  "file_extension name = last (str_split (CHR ''.'') name)"

definition save_upload_file :: "env \<Rightarrow> string \<Rightarrow> error + string" where
  "save_upload_file e destination =
     (case disk_write e destination of
        None \<Rightarrow> Inr (path_name e destination)
      | Some msg \<Rightarrow> Inl (HTTPException 500 (''Could not save file: '' @ msg)))"

definition upload_actor_photo ::
  "env \<Rightarrow> db \<Rightarrow> string \<Rightarrow> UploadFile \<Rightarrow> (error + string) \<times> db" where
  "upload_actor_photo e d actor_id file =
     (case content_type file of
        None \<Rightarrow> (Inl InternalServerError, d)
      | Some declared \<Rightarrow>
          if \<not> startswith declared ''image/''
          then (Inl (HTTPException 400 ''File must be an image''), d)
          else
            (let ext = file_extension (filename file);
                 fname = ''actor_'' @ actor_id @ ''_'' @ take 8 (uuid4_hex e) @ ''.'' @ ext
             in (case save_upload_file e (''uploads/'' @ fname) of
                   Inl err \<Rightarrow> (Inl err, d)
                 | Inr filename_saved \<Rightarrow>
                     (let photo_url = ''/uploads/'' @ filename_saved
                      in (case update_one_set (\<lambda>a. store_accepts e (Actor_dict a))
                                 (\<lambda>a. matches (regex_i e) (by_id actor_id) (Actor_dict a))
                                 [(''photo_profil'', BStr photo_url)] Actor_set_all (actors d) of
                            Inl err \<Rightarrow> (Inl err, d)
                          | Inr coll \<Rightarrow> (Inr photo_url, d\<lparr>actors := coll\<rparr>))))))"

definition get_actor :: "env \<Rightarrow> db \<Rightarrow> string \<Rightarrow> (error + Actor) \<times> db" where
  "get_actor e d actor_id =
     (case find_one (\<lambda>a. matches (regex_i e) (by_id actor_id) (Actor_dict a)) (actors d) of
        None \<Rightarrow> (Inl (HTTPException 404 ''Actor not found''), d)
      | Some actor \<Rightarrow> (Inr actor, d))"

definition update_actor ::
  "env \<Rightarrow> db \<Rightarrow> string \<Rightarrow> ActorCreate_body \<Rightarrow> (error + Actor) \<times> db" where
  "update_actor e d actor_id body =
     (case validate_ActorCreate body of
        Inl err \<Rightarrow> (Inl err, d)
      | Inr actor_update \<Rightarrow>
          (let sel = (\<lambda>a. matches (regex_i e) (by_id actor_id) (Actor_dict a))
           in (case find_one sel (actors d) of
                 None \<Rightarrow> (Inl (HTTPException 404 ''Actor not found''), d)
               | Some existing \<Rightarrow>
                   (let upd = update_data (ActorCreate_dict actor_update)
                    in (case update_one_set (\<lambda>a. store_accepts e (Actor_dict a)) sel upd
                               Actor_set_all (actors d) of
                          Inl err \<Rightarrow> (Inl err, d)
                        | Inr coll \<Rightarrow>
                            (let d' = d\<lparr>actors := coll\<rparr>
                             in (case find_one sel (actors d') of
                                   None \<Rightarrow> (Inl InternalServerError, d')
                                 | Some updated \<Rightarrow> (Inr updated, d'))))))))"

definition delete_actor :: "env \<Rightarrow> db \<Rightarrow> string \<Rightarrow> (error + string) \<times> db" where
  "delete_actor e d actor_id =
     (case delete_one (\<lambda>a. matches (regex_i e) (by_id actor_id) (Actor_dict a)) (actors d) of
        (rest, deleted_count) \<Rightarrow>
          (if deleted_count = 0 then (Inl (HTTPException 404 ''Actor not found''), d)
           else (Inr ''Actor deleted successfully'', d\<lparr>actors := rest\<rparr>)))"

subsection \<open>Listing actors\<close>

text \<open>
  The query parameters of \<^verbatim>\<open>GET /actors\<close>; \<open>None\<close> is a parameter the request does
  not carry. \<^verbatim>\<open>limit: int = Query(50, le=100)\<close> is validated by the framework before
  the handler runs.
\<close>

record get_actors_params =
  search :: "string option"
  nom :: "string option"
  nationalite :: "string option"
  age_min :: "int option"
  age_max :: "int option"
  limit :: "int option"

definition Query_limit :: "int option \<Rightarrow> error + int" where
  "Query_limit l =
     (case l of
        None \<Rightarrow> Inr 50
      | Some n \<Rightarrow> if n \<le> 100 then Inr n else Inl RequestValidationError)"

text \<open>\<^verbatim>\<open>if s:\<close> on an optional string: neither \<^verbatim>\<open>None\<close> nor the empty string.\<close>

fun if_str :: "string option \<Rightarrow> (string \<Rightarrow> clause) \<Rightarrow> query" where
  "if_str None mk = []"
| "if_str (Some s) mk = (if s = [] then [] else [mk s])"

definition age_filter :: "int option \<Rightarrow> int option \<Rightarrow> query" where
  "age_filter lo hi =
     (if lo \<noteq> None \<or> hi \<noteq> None then [Field ''age'' (Range lo hi)] else [])"

definition get_actors_query :: "get_actors_params \<Rightarrow> query" where
  "get_actors_query p =
     if_str (get_actors_params.search p)
       (\<lambda>s. Or [(''nom'', Regex_i s), (''nationalite'', Regex_i s), (''biographie'', Regex_i s)])
     @ if_str (get_actors_params.nom p) (\<lambda>s. Field ''nom'' (Regex_i s))
     @ if_str (get_actors_params.nationalite p) (\<lambda>s. Field ''nationalite'' (Regex_i s))
     @ age_filter (age_min p) (age_max p)"

definition get_actors :: "env \<Rightarrow> db \<Rightarrow> get_actors_params \<Rightarrow> error + Actor list" where
  "get_actors e d p =
     (case Query_limit (get_actors_params.limit p) of
        Inl err \<Rightarrow> Inl err
      | Inr n \<Rightarrow>
          find_to_list (regex_valid e) (regex_i e) (get_actors_query p) Actor_dict n (actors d))"

section \<open>Movie endpoints\<close>

definition new_Movie :: "env \<Rightarrow> MovieCreate \<Rightarrow> Movie" where
  "new_Movie e c =
     \<lparr>Movie.id' = uuid4 e,
      Movie.nom = MovieCreate.nom c,
      Movie.annee = MovieCreate.annee c,
      Movie.genre = MovieCreate.genre c,
      Movie.description = MovieCreate.description c,
      Movie.photo_couverture = None,
      Movie.acteurs = MovieCreate.acteurs c,
      Movie.lien_externe = MovieCreate.lien_externe c,
      Movie.created_at = utcnow e\<rparr>"

definition create_movie :: "env \<Rightarrow> db \<Rightarrow> MovieCreate_body \<Rightarrow> (error + Movie) \<times> db" where
  "create_movie e d body =
     (case validate_MovieCreate body of
        Inl err \<Rightarrow> (Inl err, d)
      | Inr movie_data \<Rightarrow>
          (let movie = new_Movie e movie_data
           in (case insert_one (store_accepts e (Movie_dict movie)) (Movie_dict movie) (movies d)
                      (movie\<lparr>Movie.created_at := milliseconds (Movie.created_at movie)\<rparr>) of
                 Inl err \<Rightarrow> (Inl err, d)
               | Inr coll \<Rightarrow> (Inr movie, d\<lparr>movies := coll\<rparr>))))"

fun Movie_set :: "string \<times> bson \<Rightarrow> Movie \<Rightarrow> Movie" where
  "Movie_set (k, v) m =
     (if k = ''nom'' then (case v of BStr s \<Rightarrow> m\<lparr>Movie.nom := s\<rparr> | _ \<Rightarrow> m)
      else if k = ''annee'' then
        (case v of BInt n \<Rightarrow> m\<lparr>Movie.annee := Some n\<rparr> | BNull \<Rightarrow> m\<lparr>Movie.annee := None\<rparr> | _ \<Rightarrow> m)
      else if k = ''genre'' then
        (case v of BStr s \<Rightarrow> m\<lparr>Movie.genre := Some s\<rparr>
                 | BNull \<Rightarrow> m\<lparr>Movie.genre := None\<rparr> | _ \<Rightarrow> m)
      else if k = ''description'' then
        (case v of BStr s \<Rightarrow> m\<lparr>Movie.description := Some s\<rparr>
                 | BNull \<Rightarrow> m\<lparr>Movie.description := None\<rparr> | _ \<Rightarrow> m)
      else if k = ''photo_couverture'' then
        (case v of BStr s \<Rightarrow> m\<lparr>Movie.photo_couverture := Some s\<rparr>
                 | BNull \<Rightarrow> m\<lparr>Movie.photo_couverture := None\<rparr> | _ \<Rightarrow> m)
      else if k = ''acteurs'' then
        (case v of BList xs \<Rightarrow> m\<lparr>Movie.acteurs := xs\<rparr> | _ \<Rightarrow> m)
      else if k = ''lien_externe'' then
        (case v of BStr s \<Rightarrow> m\<lparr>Movie.lien_externe := Some s\<rparr>
                 | BNull \<Rightarrow> m\<lparr>Movie.lien_externe := None\<rparr> | _ \<Rightarrow> m)
      else m)"

definition Movie_set_all :: "dict \<Rightarrow> Movie \<Rightarrow> Movie" where
  "Movie_set_all upd m = fold Movie_set upd m"

definition upload_movie_photo ::
  "env \<Rightarrow> db \<Rightarrow> string \<Rightarrow> UploadFile \<Rightarrow> (error + string) \<times> db" where
  "upload_movie_photo e d movie_id file =
     (case content_type file of
        None \<Rightarrow> (Inl InternalServerError, d)
      | Some declared \<Rightarrow>
          if \<not> startswith declared ''image/''
          then (Inl (HTTPException 400 ''File must be an image''), d)
          else
            (let ext = file_extension (filename file);
                 fname = ''movie_'' @ movie_id @ ''_'' @ take 8 (uuid4_hex e) @ ''.'' @ ext
             in (case save_upload_file e (''uploads/'' @ fname) of
                   Inl err \<Rightarrow> (Inl err, d)
                 | Inr filename_saved \<Rightarrow>
                     (let photo_url = ''/uploads/'' @ filename_saved
                      in (case update_one_set (\<lambda>m. store_accepts e (Movie_dict m))
                                 (\<lambda>m. matches (regex_i e) (by_id movie_id) (Movie_dict m))
                                 [(''photo_couverture'', BStr photo_url)] Movie_set_all (movies d) of
                            Inl err \<Rightarrow> (Inl err, d)
                          | Inr coll \<Rightarrow> (Inr photo_url, d\<lparr>movies := coll\<rparr>))))))"

record get_movies_params =
  search :: "string option"
  nom :: "string option"
  genre :: "string option"
  annee :: "int option"
  limit :: "int option"

text \<open>\<^verbatim>\<open>if annee:\<close> on an optional integer: neither \<^verbatim>\<open>None\<close> nor zero.\<close>

fun if_int :: "int option \<Rightarrow> (int \<Rightarrow> clause) \<Rightarrow> query" where
  "if_int None mk = []"
| "if_int (Some n) mk = (if n = 0 then [] else [mk n])"

definition get_movies_query :: "get_movies_params \<Rightarrow> query" where
  "get_movies_query p =
     if_str (get_movies_params.search p)
       (\<lambda>s. Or [(''nom'', Regex_i s), (''genre'', Regex_i s), (''description'', Regex_i s)])
     @ if_str (get_movies_params.nom p) (\<lambda>s. Field ''nom'' (Regex_i s))
     @ if_str (get_movies_params.genre p) (\<lambda>s. Field ''genre'' (Regex_i s))
     @ if_int (get_movies_params.annee p) (\<lambda>n. Field ''annee'' (Eq (BInt n)))"

definition get_movies :: "env \<Rightarrow> db \<Rightarrow> get_movies_params \<Rightarrow> error + Movie list" where
  "get_movies e d p =
     (case Query_limit (get_movies_params.limit p) of
        Inl err \<Rightarrow> Inl err
      | Inr n \<Rightarrow>
          find_to_list (regex_valid e) (regex_i e) (get_movies_query p) Movie_dict n (movies d))"

definition get_movie :: "env \<Rightarrow> db \<Rightarrow> string \<Rightarrow> (error + Movie) \<times> db" where
  "get_movie e d movie_id =
     (case find_one (\<lambda>m. matches (regex_i e) (by_id movie_id) (Movie_dict m)) (movies d) of
        None \<Rightarrow> (Inl (HTTPException 404 ''Movie not found''), d)
      | Some movie \<Rightarrow> (Inr movie, d))"

definition update_movie ::
  "env \<Rightarrow> db \<Rightarrow> string \<Rightarrow> MovieCreate_body \<Rightarrow> (error + Movie) \<times> db" where
  "update_movie e d movie_id body =
     (case validate_MovieCreate body of
        Inl err \<Rightarrow> (Inl err, d)
      | Inr movie_update \<Rightarrow>
          (let sel = (\<lambda>m. matches (regex_i e) (by_id movie_id) (Movie_dict m))
           in (case find_one sel (movies d) of
                 None \<Rightarrow> (Inl (HTTPException 404 ''Movie not found''), d)
               | Some existing \<Rightarrow>
                   (let upd = update_data (MovieCreate_dict movie_update)
                    in (case update_one_set (\<lambda>m. store_accepts e (Movie_dict m)) sel upd
                               Movie_set_all (movies d) of
                          Inl err \<Rightarrow> (Inl err, d)
                        | Inr coll \<Rightarrow>
                            (let d' = d\<lparr>movies := coll\<rparr>
                             in (case find_one sel (movies d') of
                                   None \<Rightarrow> (Inl InternalServerError, d')
                                 | Some updated \<Rightarrow> (Inr updated, d'))))))))"

definition delete_movie :: "env \<Rightarrow> db \<Rightarrow> string \<Rightarrow> (error + string) \<times> db" where
  "delete_movie e d movie_id =
     (case delete_one (\<lambda>m. matches (regex_i e) (by_id movie_id) (Movie_dict m)) (movies d) of
        (rest, deleted_count) \<Rightarrow>
          (if deleted_count = 0 then (Inl (HTTPException 404 ''Movie not found''), d)
           else (Inr ''Movie deleted successfully'', d\<lparr>movies := rest\<rparr>)))"

section \<open>Utility endpoints and the global search\<close>

text \<open>\<^verbatim>\<open>[g for g in genres if g]\<close> keeps the values that are true in a condition.\<close>

fun truthy :: "bson \<Rightarrow> bool" where
  "truthy BNull = False"
| "truthy (BStr s) = (s \<noteq> [])"
| "truthy (BInt n) = (n \<noteq> 0)"
| "truthy (BList xs) = (xs \<noteq> [])"
| "truthy (BDate t) = True"

definition get_all_genres :: "db \<Rightarrow> bson list" where
  "get_all_genres d = filter truthy (distinct_values ''genre'' (map Movie_dict (movies d)))"

definition get_all_nationalities :: "db \<Rightarrow> bson list" where
  "get_all_nationalities d =
     filter truthy (distinct_values ''nationalite'' (map Actor_dict (actors d)))"

definition global_search :: "env \<Rightarrow> db \<Rightarrow> string \<Rightarrow> error + (Actor list \<times> Movie list)" where
  "global_search e d q =
     (let search_regex = Regex_i q;
          actor_query = [Or [(''nom'', search_regex), (''nationalite'', search_regex),
                             (''biographie'', search_regex)]];
          movie_query = [Or [(''nom'', search_regex), (''genre'', search_regex),
                             (''description'', search_regex)]]
      in (case find_to_list (regex_valid e) (regex_i e) actor_query Actor_dict 10 (actors d) of
            Inl err \<Rightarrow> Inl err
          | Inr as \<Rightarrow>
              (case find_to_list (regex_valid e) (regex_i e) movie_query Movie_dict 10 (movies d) of
                 Inl err \<Rightarrow> Inl err
               | Inr ms \<Rightarrow> Inr (as, ms))))"

section \<open>A regular-expression engine for the patterns without operators\<close>

text \<open>
  The store reads the text of \<^verbatim>\<open>$regex\<close> as a Perl-compatible regular expression and
  looks for a match anywhere in the value; with the option \<^verbatim>\<open>i\<close> two characters match
  when they differ at most in case. Which characters those are is the engine's business
  (it knows the letters of every script): the model takes it as a function \<open>cf\<close> that
  sends the characters the engine identifies to one representative. \<open>pcre_i cf\<close> gives
  the meaning of the patterns made of ordinary characters and the dot, which stands for
  any one character of a value that has no line break. A pattern with any other operator
  character, and a dot against a value with a line break, are outside this fragment and
  \<open>pcre_i\<close> answers \<open>None\<close> for them.
\<close>

definition operator_chars :: "char list" where
  "operator_chars =
     [CHR 0x5C, CHR ''^'', CHR ''$'', CHR ''|'', CHR ''?'', CHR ''*'', CHR ''+'',
      CHR ''('', CHR '')'', CHR ''['', CHR '']'', CHR ''{'', CHR ''}'']"

definition line_breaks :: "char list" where
  "line_breaks = [CHR 0x0A, CHR 0x0B, CHR 0x0C, CHR 0x0D, CHR 0x85]"

definition atom_i :: "(char \<Rightarrow> char) \<Rightarrow> char \<Rightarrow> char \<Rightarrow> bool" where
  "atom_i cf p c = (if p = CHR ''.'' then True else cf p = cf c)"

fun match_here :: "(char \<Rightarrow> char) \<Rightarrow> string \<Rightarrow> string \<Rightarrow> bool" where
  "match_here cf [] s = True"
| "match_here cf (p # ps) [] = False"
| "match_here cf (p # ps) (c # cs) = (atom_i cf p c \<and> match_here cf ps cs)"

fun match_anywhere :: "(char \<Rightarrow> char) \<Rightarrow> string \<Rightarrow> string \<Rightarrow> bool" where
  "match_anywhere cf p [] = match_here cf p []"
| "match_anywhere cf p (c # cs) = (match_here cf p (c # cs) \<or> match_anywhere cf p cs)"

definition in_fragment :: "string \<Rightarrow> string \<Rightarrow> bool" where
  "in_fragment p s =
     (\<not> list_ex (\<lambda>c. c \<in> set operator_chars) p
      \<and> \<not> (CHR ''.'' \<in> set p \<and> list_ex (\<lambda>c. c \<in> set line_breaks) s))"

definition pcre_i :: "(char \<Rightarrow> char) \<Rightarrow> string \<Rightarrow> string \<Rightarrow> bool option" where
  "pcre_i cf p s = (if in_fragment p s then Some (match_anywhere cf p s) else None)"

text \<open>
  An engine implements the fragment, for its own \<open>cf\<close>, when it agrees with
  \<open>pcre_i cf\<close> on every pattern it accepts, wherever \<open>pcre_i\<close> answers.
\<close>

definition implements_pcre_i :: "(char \<Rightarrow> char) \<Rightarrow> regex_engine \<Rightarrow> (string \<Rightarrow> bool) \<Rightarrow> bool" where
  "implements_pcre_i cf rx valid = (\<forall>p s b. valid p \<and> pcre_i cf p s = Some b \<longrightarrow> rx p s = b)"

text \<open>
  Among the ASCII characters every engine identifies exactly a letter and its other case.
\<close>

definition ascii_lower :: "char \<Rightarrow> char" where
  "ascii_lower c =
     (case map_of (zip ''ABCDEFGHIJKLMNOPQRSTUVWXYZ'' ''abcdefghijklmnopqrstuvwxyz'') c of
        None \<Rightarrow> c
      | Some l \<Rightarrow> l)"

definition ascii :: "char \<Rightarrow> bool" where
  "ascii c = (\<not> digit7 c)"

definition ascii_folding :: "(char \<Rightarrow> char) \<Rightarrow> bool" where
  "ascii_folding cf =
     (\<forall>c c'. ascii c \<and> ascii c' \<longrightarrow> (cf c = cf c') = (ascii_lower c = ascii_lower c'))"

text \<open>The engine of the sample environment: the fragment with the ASCII folding.\<close>

definition fragment_engine :: regex_engine where
  "fragment_engine p s = (pcre_i ascii_lower p s = Some True)"

definition fragment_valid :: "string \<Rightarrow> bool" where
  "fragment_valid p = (\<not> list_ex (\<lambda>c. c \<in> set operator_chars) p)"

text \<open>
  The text of the specification: \<open>s\<close> occurs in \<open>t\<close> as a substring, ignoring case (as
  \<open>cf\<close> ignores it).
\<close>

definition occurs_ci :: "(char \<Rightarrow> char) \<Rightarrow> string \<Rightarrow> string \<Rightarrow> bool" where
  "occurs_ci cf s t = sublist (map cf s) (map cf t)"

fun occurs_ci_opt :: "(char \<Rightarrow> char) \<Rightarrow> string \<Rightarrow> string option \<Rightarrow> bool" where
  "occurs_ci_opt cf s None = False"
| "occurs_ci_opt cf s (Some t) = occurs_ci cf s t"

section \<open>Sample data\<close>

text \<open>
  The records of \<^verbatim>\<open>backend_test.py\<close>, written without their accents, and an
  environment in which the store accepts every document and the disk every file.
\<close>

definition basename :: "string \<Rightarrow> string" where
  "basename path = last (str_split (CHR ''/'') path)"

definition sample_env :: env where
  "sample_env =
     \<lparr>uuid4 = ''0b9f3c52-7d1e-4c50-9a3e-2f6d8a41c7e0'',
      uuid4_hex = ''5e1c09ab77d2431f8a6b90c4d3e2f100'',
      utcnow = 1700000000123456,
      regex_i = fragment_engine,
      regex_valid = fragment_valid,
      store_accepts = (\<lambda>doc. True),
      disk_write = (\<lambda>path. None),
      path_name = basename\<rparr>"

definition sample_actor :: Actor where
  "sample_actor =
     \<lparr>Actor.id' = ''actor-1'',
      Actor.nom = ''Marion Cotillard'',
      Actor.age = Some 48,
      Actor.nationalite = Some ''Francaise'',
      Actor.biographie = Some ''Actrice francaise primee aux Oscars'',
      Actor.photo_profil = None,
      Actor.filmographie = [''movie-1''],
      Actor.created_at = 1600000000\<rparr>"

definition sample_movie :: Movie where
  "sample_movie =
     \<lparr>Movie.id' = ''movie-1'',
      Movie.nom = ''La Mome'',
      Movie.annee = Some 2007,
      Movie.genre = Some ''Biographie'',
      Movie.description = Some ''Film biographique sur Edith Piaf'',
      Movie.photo_couverture = None,
      Movie.acteurs = [''actor-1''],
      Movie.lien_externe = None,
      Movie.created_at = 1600000000\<rparr>"

definition sample_db :: db where
  "sample_db = \<lparr>actors = [sample_actor], movies = [sample_movie]\<rparr>"

definition empty_db :: db where
  "empty_db = \<lparr>actors = [], movies = []\<rparr>"

definition all_actors :: get_actors_params where
  "all_actors =
     \<lparr>get_actors_params.search = None, nom = None, nationalite = None,
      age_min = None, age_max = None, limit = None\<rparr>"

definition all_movies :: get_movies_params where
  "all_movies =
     \<lparr>get_movies_params.search = None, nom = None, genre = None, annee = None, limit = None\<rparr>"

definition png_upload :: UploadFile where
  "png_upload = \<lparr>filename = ''test.png'', content_type = Some ''image/png''\<rparr>"

definition unnamed_actor :: ActorCreate_body where
  "unnamed_actor = \<lparr>ActorCreate_body.nom = Val [], age = Absent, nationalite = Absent,
     biographie = Absent, filmographie = Absent\<rparr>"

definition genre_only :: MovieCreate_body where
  "genre_only = \<lparr>MovieCreate_body.nom = Val ''La Mome'', annee = Absent, genre = Val ''Drame'',
     description = Absent, acteurs = Absent, lien_externe = Absent\<rparr>"

definition nameless_actor :: ActorCreate_body where
  "nameless_actor = \<lparr>ActorCreate_body.nom = Absent, age = Val 52, nationalite = Absent,
     biographie = Absent, filmographie = Absent\<rparr>"

definition nameless_movie :: MovieCreate_body where
  "nameless_movie = \<lparr>MovieCreate_body.nom = Null, annee = Val 2011, genre = Absent,
     description = Absent, acteurs = Absent, lien_externe = Absent\<rparr>"

definition two_genres :: db where
  "two_genres = \<lparr>actors = [sample_actor, sample_actor\<lparr>Actor.nationalite := None\<rparr>],
     movies = [sample_movie, sample_movie\<lparr>Movie.genre := Some ''Drame''\<rparr>,
               sample_movie\<lparr>Movie.genre := None\<rparr>, sample_movie]\<rparr>"

definition age_only :: ActorCreate_body where
  "age_only = \<lparr>ActorCreate_body.nom = Val ''Marion Cotillard'', age = Val 49,
     nationalite = Absent, biographie = Absent, filmographie = Absent\<rparr>"



definition no_type_upload :: UploadFile where
  "no_type_upload = \<lparr>filename = ''test.png'', content_type = None\<rparr>"

definition text_upload :: UploadFile where
  "text_upload = \<lparr>filename = ''notes.txt'', content_type = Some ''text/plain''\<rparr>"

definition huge_age :: ActorCreate_body where
  "huge_age = \<lparr>ActorCreate_body.nom = Val ''Jean Dujardin'', age = Val 9223372036854775808,
     nationalite = Absent, biographie = Absent, filmographie = Absent\<rparr>"

section \<open>Facts about the store operations\<close>

lemma matches_by_id_Actor: "matches rx (by_id i) (Actor_dict a) \<longleftrightarrow> Actor.id' a = i"
  by (simp add: matches_def by_id_def Actor_dict_def)

lemma matches_by_id_Movie: "matches rx (by_id i) (Movie_dict m) \<longleftrightarrow> Movie.id' m = i"
  by (simp add: matches_def by_id_def Movie_dict_def)

lemma find_one_none: "\<forall>x \<in> set xs. \<not> p x \<Longrightarrow> find_one p xs = None"
  by (simp add: find_one_def find_None_iff)

lemma update_one_none: "\<forall>x \<in> set xs. \<not> p x \<Longrightarrow> update_one p f xs = xs"
  by (induction xs) auto

lemma delete_one_none: "\<forall>x \<in> set xs. \<not> p x \<Longrightarrow> delete_one p xs = (xs, 0)"
  by (induction xs) auto

lemma find_to_list_length:
  "find_to_list valid rx q to_dict n xs = Inr rs \<Longrightarrow> int (length rs) \<le> n"
  by (auto simp: find_to_list_def split: if_splits)

lemma query_accepted_Nil: "query_accepted valid []"
  by (simp add: query_accepted_def)

lemma query_accepted_append:
  "query_accepted valid (q1 @ q2) \<longleftrightarrow> query_accepted valid q1 \<and> query_accepted valid q2"
  by (simp add: query_accepted_def)

lemma query_accepted_if_str:
  "query_accepted valid (if_str x mk)
     \<longleftrightarrow> (\<forall>s. x = Some s \<and> s \<noteq> [] \<longrightarrow> clause_accepted valid (mk s))"
  by (cases x) (simp_all add: query_accepted_def)

lemma query_accepted_if_int:
  "query_accepted valid (if_int x mk)
     \<longleftrightarrow> (\<forall>n. x = Some n \<and> n \<noteq> 0 \<longrightarrow> clause_accepted valid (mk n))"
  by (cases x) (simp_all add: query_accepted_def)

lemma query_accepted_age_filter:
  "query_accepted valid (age_filter lo hi)
     \<longleftrightarrow> (\<forall>l. lo = Some l \<longrightarrow> int64 l) \<and> (\<forall>h. hi = Some h \<longrightarrow> int64 h)"
  by (cases lo; cases hi) (simp_all add: query_accepted_def age_filter_def)

lemma accepted_get_actors_query:
  "query_accepted valid (get_actors_query p) \<longleftrightarrow>
     (\<forall>s. get_actors_params.search p = Some s \<and> s \<noteq> [] \<longrightarrow> valid s)
     \<and> (\<forall>s. get_actors_params.nom p = Some s \<and> s \<noteq> [] \<longrightarrow> valid s)
     \<and> (\<forall>s. get_actors_params.nationalite p = Some s \<and> s \<noteq> [] \<longrightarrow> valid s)
     \<and> (\<forall>l. age_min p = Some l \<longrightarrow> int64 l)
     \<and> (\<forall>h. age_max p = Some h \<longrightarrow> int64 h)"
  by (simp add: get_actors_query_def query_accepted_append query_accepted_if_str
      query_accepted_age_filter)

lemma accepted_get_movies_query:
  "query_accepted valid (get_movies_query p) \<longleftrightarrow>
     (\<forall>s. get_movies_params.search p = Some s \<and> s \<noteq> [] \<longrightarrow> valid s)
     \<and> (\<forall>s. get_movies_params.nom p = Some s \<and> s \<noteq> [] \<longrightarrow> valid s)
     \<and> (\<forall>s. get_movies_params.genre p = Some s \<and> s \<noteq> [] \<longrightarrow> valid s)
     \<and> (\<forall>n. get_movies_params.annee p = Some n \<and> n \<noteq> 0 \<longrightarrow> int64 n)"
  by (simp add: get_movies_query_def query_accepted_append query_accepted_if_str
      query_accepted_if_int)

lemma Query_limit_le: "Query_limit l = Inr n \<Longrightarrow> n \<le> 100"
  by (auto simp: Query_limit_def split: option.splits if_splits)

lemma get_all_sample:
  "get_actors sample_env sample_db all_actors = Inr [sample_actor]"
  "get_movies sample_env sample_db all_movies = Inr [sample_movie]"
  by (simp_all add: get_actors_def get_movies_def Query_limit_def all_actors_def all_movies_def
      get_actors_query_def get_movies_query_def age_filter_def find_to_list_def matches_def
      query_accepted_def sample_db_def)

section \<open>The size of a listing\<close>

lemma get_actors_bound:
  "get_actors e d p = Inr rs \<Longrightarrow>
   \<exists>n. Query_limit (get_actors_params.limit p) = Inr n \<and> n \<le> 100 \<and> int (length rs) \<le> n"
  by (auto simp: get_actors_def split: sum.splits dest: Query_limit_le find_to_list_length)

lemma get_movies_bound:
  "get_movies e d p = Inr rs \<Longrightarrow>
   \<exists>n. Query_limit (get_movies_params.limit p) = Inr n \<and> n \<le> 100 \<and> int (length rs) \<le> n"
  by (auto simp: get_movies_def split: sum.splits dest: Query_limit_le find_to_list_length)

text \<open>
  C2, as the code has it. A listing without \<^verbatim>\<open>limit\<close> is the listing with limit 50.
  A limit above 100 is not clamped: the declaration \<^verbatim>\<open>Query(50, le=100)\<close> refuses the
  request with a validation error. Every listing that succeeds has a limit of at most
  100 and holds at most that many records.
\<close>

theorem list_limit_validated:
  "get_actors e d (pa\<lparr>get_actors_params.limit := None\<rparr>)
     = get_actors e d (pa\<lparr>get_actors_params.limit := Some 50\<rparr>)
   \<and> get_movies e d (pm\<lparr>get_movies_params.limit := None\<rparr>)
     = get_movies e d (pm\<lparr>get_movies_params.limit := Some 50\<rparr>)
   \<and> (100 < n \<longrightarrow>
        get_actors e d (pa\<lparr>get_actors_params.limit := Some n\<rparr>) = Inl RequestValidationError
      \<and> get_movies e d (pm\<lparr>get_movies_params.limit := Some n\<rparr>) = Inl RequestValidationError)
   \<and> (get_actors e d pa = Inr ra \<longrightarrow>
        (\<exists>k. Query_limit (get_actors_params.limit pa) = Inr k \<and> k \<le> 100 \<and> int (length ra) \<le> k))
   \<and> (get_movies e d pm = Inr rm \<longrightarrow>
        (\<exists>k. Query_limit (get_movies_params.limit pm) = Inr k \<and> k \<le> 100 \<and> int (length rm) \<le> k))"
proof -
  have a: "get_actors e d (pa\<lparr>get_actors_params.limit := None\<rparr>)
     = get_actors e d (pa\<lparr>get_actors_params.limit := Some 50\<rparr>)"
    by (simp add: get_actors_def Query_limit_def get_actors_query_def)
  have b: "get_movies e d (pm\<lparr>get_movies_params.limit := None\<rparr>)
     = get_movies e d (pm\<lparr>get_movies_params.limit := Some 50\<rparr>)"
    by (simp add: get_movies_def Query_limit_def get_movies_query_def)
  have c: "100 < n \<longrightarrow>
        get_actors e d (pa\<lparr>get_actors_params.limit := Some n\<rparr>) = Inl RequestValidationError
      \<and> get_movies e d (pm\<lparr>get_movies_params.limit := Some n\<rparr>) = Inl RequestValidationError"
    by (simp add: get_actors_def get_movies_def Query_limit_def)
  show ?thesis
    using a b c get_actors_bound [of e d pa ra] get_movies_bound [of e d pm rm] by blast
qed

theorem list_limit_validated_witness:
  "(100::int) < 101
   \<and> get_actors sample_env sample_db all_actors = Inr [sample_actor]
   \<and> get_movies sample_env sample_db all_movies = Inr [sample_movie]
   \<and> get_actors sample_env sample_db (all_actors\<lparr>get_actors_params.limit := Some 101\<rparr>)
       = Inl RequestValidationError
   \<and> (\<exists>k. Query_limit (get_actors_params.limit all_actors) = Inr k \<and> k \<le> 100
          \<and> int (length [sample_actor]) \<le> k)
   \<and> (\<exists>k. Query_limit (get_movies_params.limit all_movies) = Inr k \<and> k \<le> 100
          \<and> int (length [sample_movie]) \<le> k)"
  using list_limit_validated [of sample_env sample_db all_actors all_movies 101
      "[sample_actor]" "[sample_movie]"] get_all_sample
  by simp

text \<open>The claim as written fails: a request for 101 records does not succeed.\<close>

theorem limit_above_100_counterexample:
  "get_actors sample_env sample_db (all_actors\<lparr>get_actors_params.limit := Some 101\<rparr>)
     = Inl RequestValidationError"
  by (simp add: get_actors_def Query_limit_def)

section \<open>Partial update\<close>

text \<open>
  C1 at an input where the code departs from it. The stored movie lists one actor; the
  update carries \<^verbatim>\<open>nom\<close> and \<^verbatim>\<open>genre\<close> and no \<^verbatim>\<open>acteurs\<close>. The absent list is
  filled in as \<^verbatim>\<open>[]\<close> by the model's default, passes the \<^verbatim>\<open>is not None\<close> filter and
  overwrites the stored list. The same happens to \<^verbatim>\<open>filmographie\<close> of an actor.
\<close>

theorem update_resets_absent_lists:
  "Movie.acteurs sample_movie = [''actor-1'']
   \<and> MovieCreate_body.acteurs genre_only = Absent
   \<and> update_movie sample_env sample_db ''movie-1'' genre_only =
       (Inr (sample_movie\<lparr>Movie.genre := Some ''Drame'', Movie.acteurs := []\<rparr>),
        \<lparr>actors = [sample_actor],
         movies = [sample_movie\<lparr>Movie.genre := Some ''Drame'', Movie.acteurs := []\<rparr>]\<rparr>)
   \<and> Actor.filmographie sample_actor = [''movie-1'']
   \<and> ActorCreate_body.filmographie age_only = Absent
   \<and> update_actor sample_env sample_db ''actor-1'' age_only =
       (Inr (sample_actor\<lparr>Actor.age := Some 49, Actor.filmographie := []\<rparr>),
        \<lparr>actors = [sample_actor\<lparr>Actor.age := Some 49, Actor.filmographie := []\<rparr>],
         movies = [sample_movie]\<rparr>)"
  by (simp add: update_movie_def genre_only_def validate_MovieCreate_def sample_db_def
      matches_by_id_Movie find_one_def sample_movie_def Let_def update_data_def
      MovieCreate_dict_def Movie_set_all_def update_actor_def age_only_def
      validate_ActorCreate_def matches_by_id_Actor sample_actor_def ActorCreate_dict_def
      Actor_set_all_def update_one_set_def dict_encodable_def int64_def sample_env_def)

section \<open>Distinct values\<close>

lemma distinct_values_genre:
  "distinct_values ''genre'' (map Movie_dict ms) = remdups (map (\<lambda>m. opt_str (Movie.genre m)) ms)"
  by (simp add: distinct_values_def List.map_filter_def Movie_dict_def comp_def)

lemma distinct_values_nationalite:
  "distinct_values ''nationalite'' (map Actor_dict as)
     = remdups (map (\<lambda>a. opt_str (Actor.nationalite a)) as)"
  by (simp add: distinct_values_def List.map_filter_def Actor_dict_def comp_def)

lemma truthy_opt_str: "truthy (opt_str x) \<longleftrightarrow> (\<exists>g. x = Some g \<and> g \<noteq> [])"
  by (cases x) simp_all

lemma genres_set:
  "set (get_all_genres d) = {BStr g | g. g \<noteq> [] \<and> (\<exists>m \<in> set (movies d). Movie.genre m = Some g)}"
proof -
  have "set (get_all_genres d)
          = {x \<in> (\<lambda>m. opt_str (Movie.genre m)) ` set (movies d). truthy x}"
    by (simp add: get_all_genres_def distinct_values_genre)
  also have "\<dots> = {BStr g | g. g \<noteq> [] \<and> (\<exists>m \<in> set (movies d). Movie.genre m = Some g)}"
  proof (intro set_eqI iffI)
    fix x assume "x \<in> {x \<in> (\<lambda>m. opt_str (Movie.genre m)) ` set (movies d). truthy x}"
    then obtain m where m: "m \<in> set (movies d)" "x = opt_str (Movie.genre m)" "truthy x"
      by blast
    then obtain g where "Movie.genre m = Some g" "g \<noteq> []"
      using truthy_opt_str by blast
    with m show "x \<in> {BStr g | g. g \<noteq> [] \<and> (\<exists>m \<in> set (movies d). Movie.genre m = Some g)}"
      by auto
  next
    fix x assume "x \<in> {BStr g | g. g \<noteq> [] \<and> (\<exists>m \<in> set (movies d). Movie.genre m = Some g)}"
    then obtain g m where gm: "x = BStr g" "g \<noteq> []" "m \<in> set (movies d)" "Movie.genre m = Some g"
      by blast
    then have "x = opt_str (Movie.genre m)" "truthy x" by simp_all
    with gm show "x \<in> {x \<in> (\<lambda>m. opt_str (Movie.genre m)) ` set (movies d). truthy x}"
      by blast
  qed
  finally show ?thesis .
qed

lemma nationalities_set:
  "set (get_all_nationalities d)
     = {BStr n | n. n \<noteq> [] \<and> (\<exists>a \<in> set (actors d). Actor.nationalite a = Some n)}"
proof -
  have "set (get_all_nationalities d)
          = {x \<in> (\<lambda>a. opt_str (Actor.nationalite a)) ` set (actors d). truthy x}"
    by (simp add: get_all_nationalities_def distinct_values_nationalite)
  also have "\<dots> = {BStr n | n. n \<noteq> [] \<and> (\<exists>a \<in> set (actors d). Actor.nationalite a = Some n)}"
  proof (intro set_eqI iffI)
    fix x assume "x \<in> {x \<in> (\<lambda>a. opt_str (Actor.nationalite a)) ` set (actors d). truthy x}"
    then obtain a where a: "a \<in> set (actors d)" "x = opt_str (Actor.nationalite a)" "truthy x"
      by blast
    then obtain n where "Actor.nationalite a = Some n" "n \<noteq> []"
      using truthy_opt_str by blast
    with a show "x \<in> {BStr n | n. n \<noteq> [] \<and> (\<exists>a \<in> set (actors d). Actor.nationalite a = Some n)}"
      by auto
  next
    fix x assume "x \<in> {BStr n | n. n \<noteq> [] \<and> (\<exists>a \<in> set (actors d). Actor.nationalite a = Some n)}"
    then obtain n a where na: "x = BStr n" "n \<noteq> []" "a \<in> set (actors d)" "Actor.nationalite a = Some n"
      by blast
    then have "x = opt_str (Actor.nationalite a)" "truthy x" by simp_all
    with na show "x \<in> {x \<in> (\<lambda>a. opt_str (Actor.nationalite a)) ` set (actors d). truthy x}"
      by blast
  qed
  finally show ?thesis .
qed

text \<open>
  C5, as the code has it. The genre listing holds exactly the genres that are neither
  null nor the empty string (the filter \<^verbatim>\<open>if g\<close> drops both), each once; likewise the
  nationality listing.
\<close>

theorem distinct_listing:
  "set (get_all_genres d)
     = {BStr g | g. g \<noteq> [] \<and> (\<exists>m \<in> set (movies d). Movie.genre m = Some g)}
   \<and> distinct (get_all_genres d)
   \<and> set (get_all_nationalities d)
     = {BStr n | n. n \<noteq> [] \<and> (\<exists>a \<in> set (actors d). Actor.nationalite a = Some n)}
   \<and> distinct (get_all_nationalities d)"
  using genres_set [of d] nationalities_set [of d]
  by (simp add: get_all_genres_def get_all_nationalities_def distinct_values_def)

theorem distinct_listing_witness:
  "get_all_genres two_genres = [BStr ''Drame'', BStr ''Biographie'']
   \<and> set (get_all_genres two_genres)
     = {BStr g | g. g \<noteq> [] \<and> (\<exists>m \<in> set (movies two_genres). Movie.genre m = Some g)}
   \<and> distinct (get_all_genres two_genres)"
proof -
  have "get_all_genres two_genres = [BStr ''Drame'', BStr ''Biographie'']"
    by (simp add: get_all_genres_def distinct_values_def List.map_filter_def Movie_dict_def
        two_genres_def sample_movie_def)
  with distinct_listing [of two_genres] show ?thesis by simp
qed

text \<open>
  The claim as written fails: the empty string is a stored genre that is not null, and
  the listing leaves it out.
\<close>

theorem empty_genre_counterexample:
  "Movie.genre (sample_movie\<lparr>Movie.genre := Some []\<rparr>) = Some []
   \<and> get_all_genres \<lparr>actors = [], movies = [sample_movie\<lparr>Movie.genre := Some []\<rparr>]\<rparr> = []"
  by (simp add: get_all_genres_def distinct_values_def Movie_dict_def List.map_filter_def)

section \<open>What a query matches\<close>

lemma matches_append: "matches rx (q1 @ q2) d \<longleftrightarrow> matches rx q1 d \<and> matches rx q2 d"
  by (auto simp: matches_def)

lemma matches_Nil: "matches rx [] d"
  by (simp add: matches_def)

lemma matches_single: "matches rx [c] d \<longleftrightarrow> clause_holds rx d c"
  by (simp add: matches_def)


lemma age_lookup: "map_of (Actor_dict a) ''age'' = Some (opt_int (Actor.age a))"
  by (simp add: Actor_dict_def)

lemma matches_age_filter:
  "matches rx (age_filter lo hi) (Actor_dict a) \<longleftrightarrow>
     (lo = None \<and> hi = None) \<or>
     (\<exists>v. Actor.age a = Some v \<and> (\<forall>l. lo = Some l \<longrightarrow> l \<le> v) \<and> (\<forall>h. hi = Some h \<longrightarrow> v \<le> h))"
  by (cases lo; cases hi; cases "Actor.age a")
     (simp_all add: age_filter_def matches_def age_lookup)

lemma age_split:
  "matches rx (get_actors_query p) (Actor_dict a) \<longleftrightarrow>
     matches rx (get_actors_query (p\<lparr>age_min := None, age_max := None\<rparr>)) (Actor_dict a)
     \<and> matches rx (age_filter (age_min p) (age_max p)) (Actor_dict a)"
  by (auto simp: get_actors_query_def matches_append age_filter_def matches_Nil)


section \<open>The age range\<close>

lemma age_examples:
  "get_actors e sample_db (all_actors\<lparr>age_min := Some 45, age_max := Some 55\<rparr>)
     = Inr [sample_actor]"
  "get_actors e sample_db (all_actors\<lparr>age_max := Some 40\<rparr>) = Inr []"
  by (simp_all add: get_actors_def all_actors_def Query_limit_def find_to_list_def
      get_actors_query_def sample_db_def matches_age_filter query_accepted_age_filter
      int64_def sample_actor_def)

text \<open>
  C6. The age bounds narrow the other filters by exactly this: nothing when both are
  absent; otherwise the actor has an age, at least \<^verbatim>\<open>age_min\<close> when that is given and
  at most \<^verbatim>\<open>age_max\<close> when that is given. The stored actor of age 48 is listed for the
  range 45 to 55 and is not listed for a maximum of 40.
\<close>

theorem age_range_filter:
  "(matches rx (get_actors_query p) (Actor_dict a) \<longleftrightarrow>
      matches rx (get_actors_query (p\<lparr>age_min := None, age_max := None\<rparr>)) (Actor_dict a)
      \<and> ((age_min p = None \<and> age_max p = None)
         \<or> (\<exists>v. Actor.age a = Some v
               \<and> (\<forall>l. age_min p = Some l \<longrightarrow> l \<le> v)
               \<and> (\<forall>h. age_max p = Some h \<longrightarrow> v \<le> h))))
   \<and> get_actors e sample_db (all_actors\<lparr>age_min := Some 45, age_max := Some 55\<rparr>)
       = Inr [sample_actor]
   \<and> get_actors e sample_db (all_actors\<lparr>age_max := Some 40\<rparr>) = Inr []"
  using age_split [of rx p a] matches_age_filter [of rx "age_min p" "age_max p" a]
    age_examples [of e]
  by simp

lemma no_filters: "matches rx (get_actors_query all_actors) d"
  by (simp add: get_actors_query_def all_actors_def age_filter_def matches_def)

theorem age_range_filter_witness:
  "Actor.age sample_actor = Some 48
   \<and> matches fragment_engine
        (get_actors_query (all_actors\<lparr>age_min := Some 45, age_max := Some 55\<rparr>))
        (Actor_dict sample_actor)
   \<and> get_actors sample_env sample_db (all_actors\<lparr>age_max := Some 40\<rparr>) = Inr []"
proof -
  have a: "Actor.age sample_actor = Some 48"
    by (simp add: sample_actor_def)
  have b: "all_actors\<lparr>age_min := Some 45, age_max := Some 55, age_min := None, age_max := None\<rparr>
             = all_actors"
    by (simp add: all_actors_def)
  have c: "age_min (all_actors\<lparr>age_min := Some 45, age_max := Some 55\<rparr>) = Some 45"
          "age_max (all_actors\<lparr>age_min := Some 45, age_max := Some 55\<rparr>) = Some 55"
    by simp_all
  from age_range_filter [of fragment_engine
      "all_actors\<lparr>age_min := Some 45, age_max := Some 55\<rparr>" sample_actor sample_env]
    a b c no_filters [of fragment_engine "Actor_dict sample_actor"]
  show ?thesis by simp
qed


section \<open>Search together with specific filters\<close>

lemma matches_if_str:
  "matches rx (if_str x mk) d \<longleftrightarrow> (\<forall>s. x = Some s \<and> s \<noteq> [] \<longrightarrow> clause_holds rx d (mk s))"
  by (cases x) (simp_all add: matches_def)

lemma regex_opt_str:
  "cond_holds rx (Regex_i s) (Some (opt_str x)) \<longleftrightarrow> (\<exists>t. x = Some t \<and> rx s t)"
  by (cases x) simp_all

lemma Actor_lookups:
  "map_of (Actor_dict a) ''nom'' = Some (BStr (Actor.nom a))"
  "map_of (Actor_dict a) ''nationalite'' = Some (opt_str (Actor.nationalite a))"
  "map_of (Actor_dict a) ''biographie'' = Some (opt_str (Actor.biographie a))"
  by (simp_all add: Actor_dict_def)

lemma Movie_lookups:
  "map_of (Movie_dict m) ''nom'' = Some (BStr (Movie.nom m))"
  "map_of (Movie_dict m) ''genre'' = Some (opt_str (Movie.genre m))"
  "map_of (Movie_dict m) ''description'' = Some (opt_str (Movie.description m))"
  "map_of (Movie_dict m) ''annee'' = Some (opt_int (Movie.annee m))"
  by (simp_all add: Movie_dict_def)

lemma Actor_search_clause:
  "clause_holds rx (Actor_dict a)
     (Or [(''nom'', Regex_i s), (''nationalite'', Regex_i s), (''biographie'', Regex_i s)])
   \<longleftrightarrow> rx s (Actor.nom a)
       \<or> (\<exists>t. Actor.nationalite a = Some t \<and> rx s t)
       \<or> (\<exists>t. Actor.biographie a = Some t \<and> rx s t)"
  by (simp add: Actor_lookups regex_opt_str)

lemma Movie_search_clause:
  "clause_holds rx (Movie_dict m)
     (Or [(''nom'', Regex_i s), (''genre'', Regex_i s), (''description'', Regex_i s)])
   \<longleftrightarrow> rx s (Movie.nom m)
       \<or> (\<exists>t. Movie.genre m = Some t \<and> rx s t)
       \<or> (\<exists>t. Movie.description m = Some t \<and> rx s t)"
  by (simp add: Movie_lookups regex_opt_str)

lemma matches_get_actors_query:
  "matches rx (get_actors_query p) (Actor_dict a) \<longleftrightarrow>
     (\<forall>s. get_actors_params.search p = Some s \<and> s \<noteq> [] \<longrightarrow>
        rx s (Actor.nom a)
        \<or> (\<exists>t. Actor.nationalite a = Some t \<and> rx s t)
        \<or> (\<exists>t. Actor.biographie a = Some t \<and> rx s t))
     \<and> (\<forall>s. get_actors_params.nom p = Some s \<and> s \<noteq> [] \<longrightarrow> rx s (Actor.nom a))
     \<and> (\<forall>s. get_actors_params.nationalite p = Some s \<and> s \<noteq> [] \<longrightarrow>
          (\<exists>t. Actor.nationalite a = Some t \<and> rx s t))
     \<and> ((age_min p = None \<and> age_max p = None)
        \<or> (\<exists>v. Actor.age a = Some v
              \<and> (\<forall>l. age_min p = Some l \<longrightarrow> l \<le> v)
              \<and> (\<forall>h. age_max p = Some h \<longrightarrow> v \<le> h)))"
  by (simp add: get_actors_query_def matches_append matches_if_str Actor_search_clause
      Actor_lookups regex_opt_str matches_age_filter)

lemma matches_if_int:
  "matches rx (if_int x mk) d \<longleftrightarrow> (\<forall>n. x = Some n \<and> n \<noteq> 0 \<longrightarrow> clause_holds rx d (mk n))"
  by (cases x) (simp_all add: matches_def)

lemma opt_int_eq: "opt_int x = BInt n \<longleftrightarrow> x = Some n"
  by (cases x) simp_all

lemma matches_get_movies_query:
  "matches rx (get_movies_query p) (Movie_dict m) \<longleftrightarrow>
     (\<forall>s. get_movies_params.search p = Some s \<and> s \<noteq> [] \<longrightarrow>
        rx s (Movie.nom m)
        \<or> (\<exists>t. Movie.genre m = Some t \<and> rx s t)
        \<or> (\<exists>t. Movie.description m = Some t \<and> rx s t))
     \<and> (\<forall>s. get_movies_params.nom p = Some s \<and> s \<noteq> [] \<longrightarrow> rx s (Movie.nom m))
     \<and> (\<forall>s. get_movies_params.genre p = Some s \<and> s \<noteq> [] \<longrightarrow>
          (\<exists>t. Movie.genre m = Some t \<and> rx s t))
     \<and> (\<forall>n. get_movies_params.annee p = Some n \<and> n \<noteq> 0 \<longrightarrow> Movie.annee m = Some n)"
  by (simp add: get_movies_query_def matches_append matches_if_str matches_if_int
      Movie_search_clause Movie_lookups regex_opt_str opt_int_eq)




section \<open>The year filter\<close>







section \<open>Identifiers that name no record\<close>

lemma validate_ActorCreate_error:
  "validate_ActorCreate ab = Inl err \<Longrightarrow> err = RequestValidationError"
  by (cases "ActorCreate_body.nom ab"; cases "ActorCreate_body.filmographie ab")
     (simp_all add: validate_ActorCreate_def)

lemma validate_MovieCreate_error:
  "validate_MovieCreate mb = Inl err \<Longrightarrow> err = RequestValidationError"
  by (cases "MovieCreate_body.nom mb"; cases "MovieCreate_body.acteurs mb")
     (simp_all add: validate_MovieCreate_def)

lemma update_one_set_none:
  "\<forall>x \<in> set xs. \<not> p x \<Longrightarrow> dict_encodable upd \<Longrightarrow>
   update_one_set accepts p upd set_all xs = Inr xs"
  by (simp add: update_one_set_def find_one_none)

lemma actor_unknown:
  assumes "\<forall>a \<in> set (actors d). Actor.id' a \<noteq> i"
  shows "get_actor e d i = (Inl (HTTPException 404 ''Actor not found''), d)
     \<and> update_actor e d i ab =
         (if isl (validate_ActorCreate ab) then (Inl RequestValidationError, d)
          else (Inl (HTTPException 404 ''Actor not found''), d))
     \<and> delete_actor e d i = (Inl (HTTPException 404 ''Actor not found''), d)
     \<and> upload_actor_photo e d i f =
         (case content_type f of
            None \<Rightarrow> (Inl InternalServerError, d)
          | Some declared \<Rightarrow>
              if \<not> startswith declared ''image/''
              then (Inl (HTTPException 400 ''File must be an image''), d)
              else (case disk_write e (''uploads/actor_'' @ i @ ''_'' @ take 8 (uuid4_hex e) @ ''.''
                                        @ file_extension (filename f)) of
                      Some msg \<Rightarrow> (Inl (HTTPException 500 (''Could not save file: '' @ msg)), d)
                    | None \<Rightarrow>
                        (Inr (''/uploads/'' @ path_name e (''uploads/actor_'' @ i @ ''_''
                                @ take 8 (uuid4_hex e) @ ''.'' @ file_extension (filename f))), d)))"
proof -
  have sel: "\<forall>a \<in> set (actors d). \<not> matches (regex_i e) (by_id i) (Actor_dict a)"
    using assms by (simp add: matches_by_id_Actor)
  have g: "get_actor e d i = (Inl (HTTPException 404 ''Actor not found''), d)"
    by (simp add: get_actor_def find_one_none [OF sel])
  have u: "update_actor e d i ab =
         (if isl (validate_ActorCreate ab) then (Inl RequestValidationError, d)
          else (Inl (HTTPException 404 ''Actor not found''), d))"
    by (cases "validate_ActorCreate ab")
       (auto simp: update_actor_def find_one_none [OF sel] dest: validate_ActorCreate_error)
  have del: "delete_actor e d i = (Inl (HTTPException 404 ''Actor not found''), d)"
    by (simp add: delete_actor_def delete_one_none [OF sel])
  have enc: "\<And>url. dict_encodable [(''photo_profil'', BStr url)]"
    by (simp add: dict_encodable_def)
  have p: "upload_actor_photo e d i f =
         (case content_type f of
            None \<Rightarrow> (Inl InternalServerError, d)
          | Some declared \<Rightarrow>
              if \<not> startswith declared ''image/''
              then (Inl (HTTPException 400 ''File must be an image''), d)
              else (case disk_write e (''uploads/actor_'' @ i @ ''_'' @ take 8 (uuid4_hex e) @ ''.''
                                        @ file_extension (filename f)) of
                      Some msg \<Rightarrow> (Inl (HTTPException 500 (''Could not save file: '' @ msg)), d)
                    | None \<Rightarrow>
                        (Inr (''/uploads/'' @ path_name e (''uploads/actor_'' @ i @ ''_''
                                @ take 8 (uuid4_hex e) @ ''.'' @ file_extension (filename f))), d)))"
    by (simp add: upload_actor_photo_def update_one_set_none [OF sel enc] Let_def
        save_upload_file_def split: option.splits)
  from g u del p show ?thesis by simp
qed

lemma movie_unknown:
  assumes "\<forall>m \<in> set (movies d). Movie.id' m \<noteq> i"
  shows "get_movie e d i = (Inl (HTTPException 404 ''Movie not found''), d)
     \<and> update_movie e d i mb =
         (if isl (validate_MovieCreate mb) then (Inl RequestValidationError, d)
          else (Inl (HTTPException 404 ''Movie not found''), d))
     \<and> delete_movie e d i = (Inl (HTTPException 404 ''Movie not found''), d)
     \<and> upload_movie_photo e d i f =
         (case content_type f of
            None \<Rightarrow> (Inl InternalServerError, d)
          | Some declared \<Rightarrow>
              if \<not> startswith declared ''image/''
              then (Inl (HTTPException 400 ''File must be an image''), d)
              else (case disk_write e (''uploads/movie_'' @ i @ ''_'' @ take 8 (uuid4_hex e) @ ''.''
                                        @ file_extension (filename f)) of
                      Some msg \<Rightarrow> (Inl (HTTPException 500 (''Could not save file: '' @ msg)), d)
                    | None \<Rightarrow>
                        (Inr (''/uploads/'' @ path_name e (''uploads/movie_'' @ i @ ''_''
                                @ take 8 (uuid4_hex e) @ ''.'' @ file_extension (filename f))), d)))"
proof -
  have sel: "\<forall>m \<in> set (movies d). \<not> matches (regex_i e) (by_id i) (Movie_dict m)"
    using assms by (simp add: matches_by_id_Movie)
  have g: "get_movie e d i = (Inl (HTTPException 404 ''Movie not found''), d)"
    by (simp add: get_movie_def find_one_none [OF sel])
  have u: "update_movie e d i mb =
         (if isl (validate_MovieCreate mb) then (Inl RequestValidationError, d)
          else (Inl (HTTPException 404 ''Movie not found''), d))"
    by (cases "validate_MovieCreate mb")
       (auto simp: update_movie_def find_one_none [OF sel] dest: validate_MovieCreate_error)
  have del: "delete_movie e d i = (Inl (HTTPException 404 ''Movie not found''), d)"
    by (simp add: delete_movie_def delete_one_none [OF sel])
  have enc: "\<And>url. dict_encodable [(''photo_couverture'', BStr url)]"
    by (simp add: dict_encodable_def)
  have p: "upload_movie_photo e d i f =
         (case content_type f of
            None \<Rightarrow> (Inl InternalServerError, d)
          | Some declared \<Rightarrow>
              if \<not> startswith declared ''image/''
              then (Inl (HTTPException 400 ''File must be an image''), d)
              else (case disk_write e (''uploads/movie_'' @ i @ ''_'' @ take 8 (uuid4_hex e) @ ''.''
                                        @ file_extension (filename f)) of
                      Some msg \<Rightarrow> (Inl (HTTPException 500 (''Could not save file: '' @ msg)), d)
                    | None \<Rightarrow>
                        (Inr (''/uploads/'' @ path_name e (''uploads/movie_'' @ i @ ''_''
                                @ take 8 (uuid4_hex e) @ ''.'' @ file_extension (filename f))), d)))"
    by (simp add: upload_movie_photo_def update_one_set_none [OF sel enc] Let_def
        save_upload_file_def split: option.splits)
  from g u del p show ?thesis by simp
qed


text \<open>
  C3, as the code has it. When no actor has the identifier, \<^verbatim>\<open>get\<close> and \<^verbatim>\<open>delete\<close>
  answer 404; \<^verbatim>\<open>update\<close> answers 422 when the body fails validation and 404 otherwise;
  none of them changes the store. The photo upload does not look the record up and never
  answers 404: with no declared content type it fails (500), with a type that is not an
  image it answers 400, when the file cannot be written it answers 500, and otherwise it
  answers with the reference of the file it has written; the store is unchanged in every
  case. The same holds for movies.
\<close>

theorem unknown_id_answers:
  "((\<forall>a \<in> set (actors d). Actor.id' a \<noteq> i) \<longrightarrow>
       get_actor e d i = (Inl (HTTPException 404 ''Actor not found''), d)
       \<and> update_actor e d i ab =
           (if isl (validate_ActorCreate ab) then (Inl RequestValidationError, d)
            else (Inl (HTTPException 404 ''Actor not found''), d))
       \<and> delete_actor e d i = (Inl (HTTPException 404 ''Actor not found''), d)
       \<and> upload_actor_photo e d i f =
           (case content_type f of
              None \<Rightarrow> (Inl InternalServerError, d)
            | Some declared \<Rightarrow>
                if \<not> startswith declared ''image/''
                then (Inl (HTTPException 400 ''File must be an image''), d)
                else (case disk_write e (''uploads/actor_'' @ i @ ''_'' @ take 8 (uuid4_hex e) @ ''.''
                                          @ file_extension (filename f)) of
                        Some msg \<Rightarrow> (Inl (HTTPException 500 (''Could not save file: '' @ msg)), d)
                      | None \<Rightarrow>
                          (Inr (''/uploads/'' @ path_name e (''uploads/actor_'' @ i @ ''_''
                                  @ take 8 (uuid4_hex e) @ ''.'' @ file_extension (filename f))), d))))
   \<and> ((\<forall>m \<in> set (movies d). Movie.id' m \<noteq> i) \<longrightarrow>
       get_movie e d i = (Inl (HTTPException 404 ''Movie not found''), d)
       \<and> update_movie e d i mb =
           (if isl (validate_MovieCreate mb) then (Inl RequestValidationError, d)
            else (Inl (HTTPException 404 ''Movie not found''), d))
       \<and> delete_movie e d i = (Inl (HTTPException 404 ''Movie not found''), d)
       \<and> upload_movie_photo e d i f =
           (case content_type f of
              None \<Rightarrow> (Inl InternalServerError, d)
            | Some declared \<Rightarrow>
                if \<not> startswith declared ''image/''
                then (Inl (HTTPException 400 ''File must be an image''), d)
                else (case disk_write e (''uploads/movie_'' @ i @ ''_'' @ take 8 (uuid4_hex e) @ ''.''
                                          @ file_extension (filename f)) of
                        Some msg \<Rightarrow> (Inl (HTTPException 500 (''Could not save file: '' @ msg)), d)
                      | None \<Rightarrow>
                          (Inr (''/uploads/'' @ path_name e (''uploads/movie_'' @ i @ ''_''
                                  @ take 8 (uuid4_hex e) @ ''.'' @ file_extension (filename f))), d))))"
  using actor_unknown [of d i e ab f] movie_unknown [of d i e mb f] by blast

lemma no_such_id:
  "\<forall>a \<in> set (actors sample_db). Actor.id' a \<noteq> ''no-such-id''"
  "\<forall>m \<in> set (movies sample_db). Movie.id' m \<noteq> ''no-such-id''"
  by (simp_all add: sample_db_def sample_actor_def sample_movie_def)

lemma sample_bodies:
  "\<not> isl (validate_ActorCreate age_only)"
  "isl (validate_ActorCreate nameless_actor)"
  "\<not> isl (validate_MovieCreate genre_only)"
  "isl (validate_MovieCreate nameless_movie)"
  by (simp_all add: validate_ActorCreate_def validate_MovieCreate_def age_only_def
      nameless_actor_def genre_only_def nameless_movie_def)

theorem unknown_id_answers_witness:
  "get_actor sample_env sample_db ''no-such-id''
     = (Inl (HTTPException 404 ''Actor not found''), sample_db)
   \<and> update_actor sample_env sample_db ''no-such-id'' age_only
     = (Inl (HTTPException 404 ''Actor not found''), sample_db)
   \<and> update_actor sample_env sample_db ''no-such-id'' nameless_actor
     = (Inl RequestValidationError, sample_db)
   \<and> delete_actor sample_env sample_db ''no-such-id''
     = (Inl (HTTPException 404 ''Actor not found''), sample_db)
   \<and> get_movie sample_env sample_db ''no-such-id''
     = (Inl (HTTPException 404 ''Movie not found''), sample_db)
   \<and> update_movie sample_env sample_db ''no-such-id'' genre_only
     = (Inl (HTTPException 404 ''Movie not found''), sample_db)
   \<and> update_movie sample_env sample_db ''no-such-id'' nameless_movie
     = (Inl RequestValidationError, sample_db)
   \<and> delete_movie sample_env sample_db ''no-such-id''
     = (Inl (HTTPException 404 ''Movie not found''), sample_db)
   \<and> upload_actor_photo sample_env sample_db ''no-such-id'' text_upload
     = (Inl (HTTPException 400 ''File must be an image''), sample_db)
   \<and> upload_actor_photo sample_env sample_db ''no-such-id'' no_type_upload
     = (Inl InternalServerError, sample_db)
   \<and> upload_movie_photo sample_env sample_db ''no-such-id'' png_upload
     = (Inr ''/uploads/movie_no-such-id_5e1c09ab.png'', sample_db)"
proof -
  note t1 = unknown_id_answers [of sample_db "''no-such-id''" sample_env age_only text_upload
      genre_only]
  note t2 = unknown_id_answers [of sample_db "''no-such-id''" sample_env nameless_actor
      no_type_upload nameless_movie]
  note t3 = unknown_id_answers [of sample_db "''no-such-id''" sample_env age_only png_upload
      genre_only]
  have f: "content_type text_upload = Some ''text/plain''"
    "content_type no_type_upload = None"
    "content_type png_upload = Some ''image/png''"
    "filename png_upload = ''test.png''"
    by (simp_all add: text_upload_def no_type_upload_def png_upload_def)
  have x: "file_extension ''test.png'' = ''png''"
    by (simp add: file_extension_def)
  have e: "disk_write sample_env = (\<lambda>path. None)" "path_name sample_env = basename"
    "take 8 (uuid4_hex sample_env) = ''5e1c09ab''"
    by (simp_all add: sample_env_def)
  have b: "basename ''uploads/movie_no-such-id_5e1c09ab.png'' = ''movie_no-such-id_5e1c09ab.png''"
    by (simp add: basename_def)
  from t1 t2 t3 no_such_id sample_bodies show ?thesis
    by (simp add: f x e b)
qed

text \<open>The claim as written fails: a photo upload for an unknown actor succeeds.\<close>

theorem photo_unknown_id_counterexample:
  "upload_actor_photo sample_env sample_db ''no-such-id'' png_upload
     = (Inr ''/uploads/actor_no-such-id_5e1c09ab.png'', sample_db)"
  by (simp add: upload_actor_photo_def png_upload_def sample_env_def sample_db_def
      save_upload_file_def file_extension_def basename_def Let_def update_one_set_def
      dict_encodable_def find_one_def matches_by_id_Actor sample_actor_def)

section \<open>Creation\<close>

lemma create_actor_unnamed:
  "\<forall>n. ActorCreate_body.nom ab \<noteq> Val n \<Longrightarrow>
   create_actor e d ab = (Inl RequestValidationError, d)"
  by (cases "ActorCreate_body.nom ab") (simp_all add: create_actor_def validate_ActorCreate_def)

lemma create_movie_unnamed:
  "\<forall>n. MovieCreate_body.nom mb \<noteq> Val n \<Longrightarrow>
   create_movie e d mb = (Inl RequestValidationError, d)"
  by (cases "MovieCreate_body.nom mb") (simp_all add: create_movie_def validate_MovieCreate_def)

lemma encodable_opt_str: "encodable (opt_str x)"
  by (cases x) simp_all

lemma Actor_dict_encodable:
  "dict_encodable (Actor_dict a) \<longleftrightarrow> (\<forall>k. Actor.age a = Some k \<longrightarrow> int64 k)"
  by (cases "Actor.age a") (simp_all add: dict_encodable_def Actor_dict_def encodable_opt_str)

lemma Movie_dict_encodable:
  "dict_encodable (Movie_dict m) \<longleftrightarrow> (\<forall>k. Movie.annee m = Some k \<longrightarrow> int64 k)"
  by (cases "Movie.annee m") (simp_all add: dict_encodable_def Movie_dict_def encodable_opt_str)

lemma create_actor_named:
  assumes "ActorCreate_body.nom ab = Val n"
    and "default_factory_list (ActorCreate_body.filmographie ab) = Inr fs"
  shows "create_actor e d ab =
     (let actor = \<lparr>Actor.id' = uuid4 e, nom = n, age = optional (ActorCreate_body.age ab),
                    nationalite = optional (ActorCreate_body.nationalite ab),
                    biographie = optional (ActorCreate_body.biographie ab),
                    photo_profil = None, filmographie = fs, created_at = utcnow e\<rparr>
      in if (\<forall>k. ActorCreate_body.age ab = Val k \<longrightarrow> int64 k) \<and> store_accepts e (Actor_dict actor)
         then (Inr actor,
               d\<lparr>actors := actors d @ [actor\<lparr>Actor.created_at := milliseconds (utcnow e)\<rparr>]\<rparr>)
         else (Inl InternalServerError, d))"
  using assms
  by (cases "ActorCreate_body.age ab")
     (simp_all add: create_actor_def validate_ActorCreate_def new_Actor_def insert_one_def Let_def
      Actor_dict_encodable)

lemma create_movie_named:
  assumes "MovieCreate_body.nom mb = Val n"
    and "default_factory_list (MovieCreate_body.acteurs mb) = Inr as"
  shows "create_movie e d mb =
     (let movie = \<lparr>Movie.id' = uuid4 e, nom = n, annee = optional (MovieCreate_body.annee mb),
                    genre = optional (MovieCreate_body.genre mb),
                    description = optional (MovieCreate_body.description mb),
                    photo_couverture = None, acteurs = as,
                    lien_externe = optional (MovieCreate_body.lien_externe mb),
                    created_at = utcnow e\<rparr>
      in if (\<forall>k. MovieCreate_body.annee mb = Val k \<longrightarrow> int64 k) \<and> store_accepts e (Movie_dict movie)
         then (Inr movie,
               d\<lparr>movies := movies d @ [movie\<lparr>Movie.created_at := milliseconds (utcnow e)\<rparr>]\<rparr>)
         else (Inl InternalServerError, d))"
  using assms
  by (cases "MovieCreate_body.annee mb")
     (simp_all add: create_movie_def validate_MovieCreate_def new_Movie_def insert_one_def Let_def
      Movie_dict_encodable)

text \<open>
  C4, as the code has it. A body whose \<^verbatim>\<open>nom\<close> is absent or null is refused with a
  validation error and the store is unchanged. A body with a \<^verbatim>\<open>nom\<close>, the empty string
  included, and with no null list field, passes validation and the record is built with
  the fresh identifier, the time of the request, no photo and the fields of the body.
  When its integer fits 8 bytes and the store accepts the document, the record is
  returned and is appended to its collection with its time cut to the millisecond;
  otherwise the insertion raises, the answer is 500 and the store is unchanged.
\<close>

theorem create_needs_a_name:
  "((\<forall>n. ActorCreate_body.nom ab0 \<noteq> Val n) \<longrightarrow>
      create_actor e d ab0 = (Inl RequestValidationError, d))
   \<and> ((\<forall>n. MovieCreate_body.nom mb0 \<noteq> Val n) \<longrightarrow>
      create_movie e d mb0 = (Inl RequestValidationError, d))
   \<and> (ActorCreate_body.nom ab = Val n
       \<and> default_factory_list (ActorCreate_body.filmographie ab) = Inr fs \<longrightarrow>
      create_actor e d ab =
        (let actor = \<lparr>Actor.id' = uuid4 e, nom = n, age = optional (ActorCreate_body.age ab),
                       nationalite = optional (ActorCreate_body.nationalite ab),
                       biographie = optional (ActorCreate_body.biographie ab),
                       photo_profil = None, filmographie = fs, created_at = utcnow e\<rparr>
         in if (\<forall>k. ActorCreate_body.age ab = Val k \<longrightarrow> int64 k)
               \<and> store_accepts e (Actor_dict actor)
            then (Inr actor,
                  d\<lparr>actors := actors d @ [actor\<lparr>Actor.created_at := milliseconds (utcnow e)\<rparr>]\<rparr>)
            else (Inl InternalServerError, d)))
   \<and> (MovieCreate_body.nom mb = Val k
       \<and> default_factory_list (MovieCreate_body.acteurs mb) = Inr as \<longrightarrow>
      create_movie e d mb =
        (let movie = \<lparr>Movie.id' = uuid4 e, nom = k, annee = optional (MovieCreate_body.annee mb),
                       genre = optional (MovieCreate_body.genre mb),
                       description = optional (MovieCreate_body.description mb),
                       photo_couverture = None, acteurs = as,
                       lien_externe = optional (MovieCreate_body.lien_externe mb),
                       created_at = utcnow e\<rparr>
         in if (\<forall>y. MovieCreate_body.annee mb = Val y \<longrightarrow> int64 y)
               \<and> store_accepts e (Movie_dict movie)
            then (Inr movie,
                  d\<lparr>movies := movies d @ [movie\<lparr>Movie.created_at := milliseconds (utcnow e)\<rparr>]\<rparr>)
            else (Inl InternalServerError, d)))"
  using create_actor_unnamed [of ab0 e d] create_movie_unnamed [of mb0 e d]
    create_actor_named [of ab n fs e d] create_movie_named [of mb k as e d]
  by blast


lemma bodies:
  "\<forall>n. ActorCreate_body.nom nameless_actor \<noteq> Val n"
  "\<forall>n. MovieCreate_body.nom nameless_movie \<noteq> Val n"
  "ActorCreate_body.nom huge_age = Val ''Jean Dujardin''"
  "default_factory_list (ActorCreate_body.filmographie huge_age) = Inr []"
  "ActorCreate_body.age huge_age = Val 9223372036854775808"
  "MovieCreate_body.nom genre_only = Val ''La Mome''"
  "default_factory_list (MovieCreate_body.acteurs genre_only) = Inr []"
  "MovieCreate_body.annee genre_only = Absent"
  "MovieCreate_body.genre genre_only = Val ''Drame''"
  "MovieCreate_body.description genre_only = Absent"
  "MovieCreate_body.lien_externe genre_only = Absent"
  by (simp_all add: nameless_actor_def nameless_movie_def huge_age_def genre_only_def)

lemma sample_clock:
  "utcnow sample_env = 1700000000123456"
  "milliseconds (utcnow sample_env) = 1700000000123000"
  "milliseconds 1700000000123456 = 1700000000123000"
  "uuid4 sample_env = ''0b9f3c52-7d1e-4c50-9a3e-2f6d8a41c7e0''"
  "store_accepts sample_env = (\<lambda>doc. True)"
  by (simp_all add: sample_env_def milliseconds_def)

theorem create_needs_a_name_witness:
  "create_actor sample_env sample_db nameless_actor = (Inl RequestValidationError, sample_db)
   \<and> create_movie sample_env sample_db nameless_movie = (Inl RequestValidationError, sample_db)
   \<and> create_actor sample_env sample_db huge_age = (Inl InternalServerError, sample_db)
   \<and> create_movie sample_env empty_db genre_only =
       (Inr \<lparr>Movie.id' = ''0b9f3c52-7d1e-4c50-9a3e-2f6d8a41c7e0'', nom = ''La Mome'',
             annee = None, genre = Some ''Drame'', description = None,
             photo_couverture = None, acteurs = [], lien_externe = None,
             created_at = 1700000000123456\<rparr>,
        \<lparr>actors = [],
         movies = [\<lparr>Movie.id' = ''0b9f3c52-7d1e-4c50-9a3e-2f6d8a41c7e0'', nom = ''La Mome'',
             annee = None, genre = Some ''Drame'', description = None,
             photo_couverture = None, acteurs = [], lien_externe = None,
             created_at = 1700000000123000\<rparr>]\<rparr>)"
proof -
  note t1 = create_needs_a_name [of nameless_actor sample_env sample_db nameless_movie
      huge_age "''Jean Dujardin''" "[]" genre_only "''La Mome''" "[]"]
  note t2 = create_needs_a_name [of nameless_actor sample_env empty_db nameless_movie
      huge_age "''Jean Dujardin''" "[]" genre_only "''La Mome''" "[]"]
  have big: "\<not> int64 9223372036854775808"
    by (simp add: int64_def)
  have a: "create_actor sample_env sample_db nameless_actor
             = (Inl RequestValidationError, sample_db)"
    "create_movie sample_env sample_db nameless_movie = (Inl RequestValidationError, sample_db)"
    using t1 bodies by blast+
  have b: "create_actor sample_env sample_db huge_age = (Inl InternalServerError, sample_db)"
    using t1 bodies big by (simp add: Let_def)
  have c: "create_movie sample_env empty_db genre_only =
       (Inr \<lparr>Movie.id' = ''0b9f3c52-7d1e-4c50-9a3e-2f6d8a41c7e0'', nom = ''La Mome'',
             annee = None, genre = Some ''Drame'', description = None,
             photo_couverture = None, acteurs = [], lien_externe = None,
             created_at = 1700000000123456\<rparr>,
        \<lparr>actors = [],
         movies = [\<lparr>Movie.id' = ''0b9f3c52-7d1e-4c50-9a3e-2f6d8a41c7e0'', nom = ''La Mome'',
             annee = None, genre = Some ''Drame'', description = None,
             photo_couverture = None, acteurs = [], lien_externe = None,
             created_at = 1700000000123000\<rparr>]\<rparr>)"
    using t2 bodies by (simp add: Let_def sample_clock empty_db_def)
  from a b c show ?thesis by simp
qed

text \<open>The claim as written fails: an actor whose name is the empty string is created.\<close>

theorem empty_name_counterexample:
  "create_actor sample_env empty_db unnamed_actor =
     (Inr \<lparr>Actor.id' = uuid4 sample_env, nom = [], age = None, nationalite = None,
           biographie = None, photo_profil = None, filmographie = [],
           created_at = utcnow sample_env\<rparr>,
      \<lparr>actors = [\<lparr>Actor.id' = uuid4 sample_env, nom = [], age = None, nationalite = None,
           biographie = None, photo_profil = None, filmographie = [],
           created_at = milliseconds (utcnow sample_env)\<rparr>], movies = []\<rparr>)"
  by (simp add: create_actor_def unnamed_actor_def validate_ActorCreate_def empty_db_def
      insert_one_def new_Actor_def Let_def Actor_dict_encodable sample_clock)

section \<open>Patterns without operators\<close>

lemma match_here_plain:
  "CHR ''.'' \<notin> set p \<Longrightarrow> match_here cf p s = prefix (map cf p) (map cf s)"
  by (induction cf p s rule: match_here.induct) (auto simp: atom_i_def)

lemma match_anywhere_plain:
  "CHR ''.'' \<notin> set p \<Longrightarrow> match_anywhere cf p s = sublist (map cf p) (map cf s)"
  by (induction s) (auto simp: match_here_plain sublist_Cons_right)

lemma pcre_i_plain:
  assumes "\<forall>c \<in> set p. c \<noteq> CHR ''.'' \<and> c \<notin> set operator_chars"
  shows "pcre_i cf p s = Some (occurs_ci cf p s)"
proof -
  have "\<not> list_ex (\<lambda>c. c \<in> set operator_chars) p"
    using assms by (auto simp: list_ex_iff)
  moreover have "CHR ''.'' \<notin> set p"
    using assms by auto
  ultimately show ?thesis
    by (simp add: pcre_i_def in_fragment_def occurs_ci_def match_anywhere_plain)
qed

lemma implements_plain:
  "implements_pcre_i cf rx valid \<Longrightarrow> valid p \<Longrightarrow>
   \<forall>c \<in> set p. c \<noteq> CHR ''.'' \<and> c \<notin> set operator_chars \<Longrightarrow>
   rx p s = occurs_ci cf p s"
  using pcre_i_plain [of p cf s] by (simp add: implements_pcre_i_def)

lemma implements_eval:
  "implements_pcre_i cf rx valid \<Longrightarrow> valid p \<Longrightarrow> pcre_i cf p s = Some b \<Longrightarrow> rx p s = b"
  by (auto simp: implements_pcre_i_def)

lemma implements_fragment_engine: "implements_pcre_i ascii_lower fragment_engine valid"
  by (auto simp: implements_pcre_i_def fragment_engine_def)

lemma occurs_ci_opt_iff: "occurs_ci_opt cf s x \<longleftrightarrow> (\<exists>t. x = Some t \<and> occurs_ci cf s t)"
  by (cases x) simp_all

lemma occurs_ci_Nil: "occurs_ci cf [] t"
  by (simp add: occurs_ci_def)

lemma search_only_actors:
  "matches rx (get_actors_query (all_actors\<lparr>get_actors_params.search := Some s\<rparr>)) (Actor_dict a)
   \<longleftrightarrow> s = [] \<or> rx s (Actor.nom a)
        \<or> (\<exists>t. Actor.nationalite a = Some t \<and> rx s t)
        \<or> (\<exists>t. Actor.biographie a = Some t \<and> rx s t)"
  by (auto simp: matches_get_actors_query all_actors_def)

lemma search_only_movies:
  "matches rx (get_movies_query (all_movies\<lparr>get_movies_params.search := Some s\<rparr>)) (Movie_dict m)
   \<longleftrightarrow> s = [] \<or> rx s (Movie.nom m)
        \<or> (\<exists>t. Movie.genre m = Some t \<and> rx s t)
        \<or> (\<exists>t. Movie.description m = Some t \<and> rx s t)"
  by (auto simp: matches_get_movies_query all_movies_def)

lemma search_listing_actors:
  "regex_valid e s \<Longrightarrow>
   get_actors e d (all_actors\<lparr>get_actors_params.search := Some s\<rparr>) =
     Inr (take 50 (filter (\<lambda>a. matches (regex_i e)
        (get_actors_query (all_actors\<lparr>get_actors_params.search := Some s\<rparr>)) (Actor_dict a))
        (actors d)))"
  by (simp add: get_actors_def Query_limit_def find_to_list_def accepted_get_actors_query
      all_actors_def)

lemma search_listing_movies:
  "regex_valid e s \<Longrightarrow>
   get_movies e d (all_movies\<lparr>get_movies_params.search := Some s\<rparr>) =
     Inr (take 50 (filter (\<lambda>m. matches (regex_i e)
        (get_movies_query (all_movies\<lparr>get_movies_params.search := Some s\<rparr>)) (Movie_dict m))
        (movies d)))"
  by (simp add: get_movies_def Query_limit_def find_to_list_def accepted_get_movies_query
      all_movies_def)

lemma marion_occurs:
  "cf (CHR ''M'') = cf (CHR ''m'') \<Longrightarrow> occurs_ci cf ''marion'' ''Marion Cotillard''"
proof -
  assume h: "cf (CHR ''M'') = cf (CHR ''m'')"
  have "map cf ''Marion Cotillard'' = map cf ''marion'' @ map cf '' Cotillard''"
    using h by simp
  then show ?thesis
    unfolding occurs_ci_def by (simp only: sublist_append_rightI)
qed

text \<open>
  C7, as the code has it. The search text is handed to the store as a regular
  expression. Take any engine that implements the fragment for its own way \<open>cf\<close> of
  ignoring case, and a search text that has no dot and no other operator character and
  that the store accepts as a pattern. Then a record matches the search exactly when the
  text occurs, ignoring case, in its name or in one of the two other fields of its type
  (a field that is null holds no occurrence), and the listing holds the first 50 of the
  records in which it occurs. Searching \<^verbatim>\<open>marion\<close> matches the stored name
  \<^verbatim>\<open>Marion Cotillard\<close> with every engine for which \<^verbatim>\<open>M\<close> and \<^verbatim>\<open>m\<close> differ in case only.
\<close>

theorem search_is_substring_on_plain_text:
  assumes "implements_pcre_i cf (regex_i e) (regex_valid e)"
    and "\<forall>c \<in> set s. c \<noteq> CHR ''.'' \<and> c \<notin> set operator_chars"
    and "regex_valid e s"
  shows
    "(matches (regex_i e) (get_actors_query (all_actors\<lparr>get_actors_params.search := Some s\<rparr>))
        (Actor_dict a)
      \<longleftrightarrow> occurs_ci cf s (Actor.nom a) \<or> occurs_ci_opt cf s (Actor.nationalite a)
          \<or> occurs_ci_opt cf s (Actor.biographie a))
     \<and> (matches (regex_i e) (get_movies_query (all_movies\<lparr>get_movies_params.search := Some s\<rparr>))
        (Movie_dict m)
      \<longleftrightarrow> occurs_ci cf s (Movie.nom m) \<or> occurs_ci_opt cf s (Movie.genre m)
          \<or> occurs_ci_opt cf s (Movie.description m))
     \<and> get_actors e d (all_actors\<lparr>get_actors_params.search := Some s\<rparr>) =
         Inr (take 50 (filter
           (\<lambda>a. occurs_ci cf s (Actor.nom a) \<or> occurs_ci_opt cf s (Actor.nationalite a)
               \<or> occurs_ci_opt cf s (Actor.biographie a))
           (actors d)))
     \<and> get_movies e d (all_movies\<lparr>get_movies_params.search := Some s\<rparr>) =
         Inr (take 50 (filter
           (\<lambda>m. occurs_ci cf s (Movie.nom m) \<or> occurs_ci_opt cf s (Movie.genre m)
               \<or> occurs_ci_opt cf s (Movie.description m))
           (movies d)))
     \<and> (cf (CHR ''M'') = cf (CHR ''m'') \<longrightarrow> occurs_ci cf ''marion'' ''Marion Cotillard'')"
proof -
  have rx: "\<And>t. regex_i e s t = occurs_ci cf s t"
    using implements_plain [OF assms(1) assms(3) assms(2)] by simp
  have a: "\<And>a. matches (regex_i e)
        (get_actors_query (all_actors\<lparr>get_actors_params.search := Some s\<rparr>)) (Actor_dict a)
      \<longleftrightarrow> occurs_ci cf s (Actor.nom a) \<or> occurs_ci_opt cf s (Actor.nationalite a)
          \<or> occurs_ci_opt cf s (Actor.biographie a)"
    using occurs_ci_Nil by (auto simp: search_only_actors rx occurs_ci_opt_iff)
  have m: "\<And>m. matches (regex_i e)
        (get_movies_query (all_movies\<lparr>get_movies_params.search := Some s\<rparr>)) (Movie_dict m)
      \<longleftrightarrow> occurs_ci cf s (Movie.nom m) \<or> occurs_ci_opt cf s (Movie.genre m)
          \<or> occurs_ci_opt cf s (Movie.description m)"
    using occurs_ci_Nil by (auto simp: search_only_movies rx occurs_ci_opt_iff)
  have la: "get_actors e d (all_actors\<lparr>get_actors_params.search := Some s\<rparr>) =
         Inr (take 50 (filter
           (\<lambda>a. occurs_ci cf s (Actor.nom a) \<or> occurs_ci_opt cf s (Actor.nationalite a)
               \<or> occurs_ci_opt cf s (Actor.biographie a))
           (actors d)))"
    unfolding search_listing_actors [OF assms(3)] a ..
  have lm: "get_movies e d (all_movies\<lparr>get_movies_params.search := Some s\<rparr>) =
         Inr (take 50 (filter
           (\<lambda>m. occurs_ci cf s (Movie.nom m) \<or> occurs_ci_opt cf s (Movie.genre m)
               \<or> occurs_ci_opt cf s (Movie.description m))
           (movies d)))"
    unfolding search_listing_movies [OF assms(3)] m ..
  from a m la lm marion_occurs [of cf] show ?thesis by blast
qed


lemma marion_plain: "\<forall>c \<in> set ''marion''. c \<noteq> CHR ''.'' \<and> c \<notin> set operator_chars"
  by (simp add: operator_chars_def)

lemma sample_engine:
  "implements_pcre_i ascii_lower (regex_i sample_env) (regex_valid sample_env)"
  "regex_valid sample_env ''marion''"
  "regex_valid sample_env ''mar.on''"
  "regex_valid sample_env ''b.o''"
  by (simp_all add: sample_env_def implements_fragment_engine fragment_valid_def
      operator_chars_def)

theorem search_is_substring_on_plain_text_witness:
  "implements_pcre_i ascii_lower (regex_i sample_env) (regex_valid sample_env)
   \<and> regex_valid sample_env ''marion''
   \<and> ascii_lower (CHR ''M'') = ascii_lower (CHR ''m'')
   \<and> Actor.nom sample_actor = ''Marion Cotillard''
   \<and> occurs_ci ascii_lower ''marion'' ''Marion Cotillard''
   \<and> get_actors sample_env sample_db (all_actors\<lparr>get_actors_params.search := Some ''marion''\<rparr>)
       = Inr [sample_actor]"
proof -
  note t = search_is_substring_on_plain_text [OF sample_engine(1) marion_plain sample_engine(2),
      of sample_actor sample_movie sample_db]
  have l: "ascii_lower (CHR ''M'') = ascii_lower (CHR ''m'')"
    by (simp add: ascii_lower_def)
  have n: "Actor.nom sample_actor = ''Marion Cotillard''"
    by (simp add: sample_actor_def)
  from t l have o: "occurs_ci ascii_lower ''marion'' ''Marion Cotillard''"
    by blast
  from t have "get_actors sample_env sample_db
        (all_actors\<lparr>get_actors_params.search := Some ''marion''\<rparr>) =
         Inr (take 50 (filter
           (\<lambda>a. occurs_ci ascii_lower ''marion'' (Actor.nom a)
               \<or> occurs_ci_opt ascii_lower ''marion'' (Actor.nationalite a)
               \<or> occurs_ci_opt ascii_lower ''marion'' (Actor.biographie a))
           (actors sample_db)))"
    by blast
  then have g: "get_actors sample_env sample_db
        (all_actors\<lparr>get_actors_params.search := Some ''marion''\<rparr>) = Inr [sample_actor]"
    using o n by (simp add: sample_db_def)
  from sample_engine l n o g show ?thesis by simp
qed

lemma occurs_ci_needs_chars: "occurs_ci cf s t \<Longrightarrow> set (map cf s) \<subseteq> set (map cf t)"
  unfolding occurs_ci_def by (rule set_mono_sublist)

lemma no_dot:
  "\<not> occurs_ci ascii_lower ''mar.on'' ''Marion Cotillard''"
  "\<not> occurs_ci ascii_lower ''mar.on'' ''Francaise''"
  "\<not> occurs_ci ascii_lower ''mar.on'' ''Actrice francaise primee aux Oscars''"
proof -
  have d: "CHR ''.'' \<in> set (map ascii_lower ''mar.on'')"
    by (simp add: ascii_lower_def)
  have "CHR ''.'' \<notin> set (map ascii_lower ''Marion Cotillard'')"
    by (simp add: ascii_lower_def)
  with d show "\<not> occurs_ci ascii_lower ''mar.on'' ''Marion Cotillard''"
    using occurs_ci_needs_chars by blast
  have "CHR ''.'' \<notin> set (map ascii_lower ''Francaise'')"
    by (simp add: ascii_lower_def)
  with d show "\<not> occurs_ci ascii_lower ''mar.on'' ''Francaise''"
    using occurs_ci_needs_chars by blast
  have "CHR ''.'' \<notin> set (map ascii_lower ''Actrice francaise primee aux Oscars'')"
    by (simp add: ascii_lower_def)
  with d show "\<not> occurs_ci ascii_lower ''mar.on'' ''Actrice francaise primee aux Oscars''"
    using occurs_ci_needs_chars by blast
qed

lemma dot_finds_marion: "pcre_i ascii_lower ''mar.on'' ''Marion Cotillard'' = Some True"
  by (simp add: pcre_i_def in_fragment_def operator_chars_def line_breaks_def atom_i_def
      ascii_lower_def)

text \<open>
  The claim as written fails: the search text \<^verbatim>\<open>mar.on\<close> lists the actor, and it
  occurs in none of the three fields.
\<close>

theorem dot_pattern_counterexample:
  "get_actors sample_env sample_db (all_actors\<lparr>get_actors_params.search := Some ''mar.on''\<rparr>)
     = Inr [sample_actor]
   \<and> \<not> (occurs_ci ascii_lower ''mar.on'' (Actor.nom sample_actor)
        \<or> occurs_ci_opt ascii_lower ''mar.on'' (Actor.nationalite sample_actor)
        \<or> occurs_ci_opt ascii_lower ''mar.on'' (Actor.biographie sample_actor))"
proof -
  have "regex_i sample_env ''mar.on'' ''Marion Cotillard''"
    by (simp add: sample_env_def fragment_engine_def dot_finds_marion)
  then have "get_actors sample_env sample_db
      (all_actors\<lparr>get_actors_params.search := Some ''mar.on''\<rparr>) = Inr [sample_actor]"
    by (simp add: search_listing_actors [OF sample_engine(3)] search_only_actors
        sample_db_def sample_actor_def)
  with no_dot show ?thesis by (simp add: sample_actor_def)
qed

section \<open>Patterns with a dot\<close>

lemma folding_atom:
  "ascii_folding cf \<Longrightarrow> ascii p \<Longrightarrow> ascii c \<Longrightarrow> atom_i cf p c = atom_i ascii_lower p c"
  by (simp add: atom_i_def ascii_folding_def)

lemma folding_match_here:
  "ascii_folding cf \<Longrightarrow> list_all ascii p \<Longrightarrow> list_all ascii s \<Longrightarrow>
   match_here cf p s = match_here ascii_lower p s"
  by (induction cf p s rule: match_here.induct) (simp_all add: folding_atom)

lemma folding_match_anywhere:
  "ascii_folding cf \<Longrightarrow> list_all ascii p \<Longrightarrow> list_all ascii s \<Longrightarrow>
   match_anywhere cf p s = match_anywhere ascii_lower p s"
  by (induction s) (simp_all add: folding_match_here)

lemma folding_pcre_i:
  "ascii_folding cf \<Longrightarrow> list_all ascii p \<Longrightarrow> list_all ascii s \<Longrightarrow>
   pcre_i cf p s = pcre_i ascii_lower p s"
  by (simp add: pcre_i_def folding_match_anywhere)

lemma ascii_eval:
  assumes "implements_pcre_i cf rx valid" and "ascii_folding cf" and "valid p"
    and "list_all ascii p" and "list_all ascii s" and "pcre_i ascii_lower p s = Some b"
  shows "rx p s = b"
  using implements_eval [OF assms(1) assms(3), of s b] folding_pcre_i [OF assms(2,4,5)] assms(6)
  by simp

lemma ascii_samples:
  "list_all ascii ''mar.on''" "list_all ascii ''b.o''"
  "list_all ascii ''Marion Cotillard''" "list_all ascii ''Francaise''"
  "list_all ascii ''Actrice francaise primee aux Oscars''"
  "list_all ascii ''La Mome''" "list_all ascii ''Biographie''"
  "list_all ascii ''Film biographique sur Edith Piaf''"
  by (simp_all add: ascii_def)

lemma pcre_i_samples:
  "pcre_i ascii_lower ''mar.on'' ''Francaise'' = Some False"
  "pcre_i ascii_lower ''mar.on'' ''La Mome'' = Some False"
  "pcre_i ascii_lower ''mar.on'' ''Biographie'' = Some False"
  "pcre_i ascii_lower ''mar.on'' ''Film biographique sur Edith Piaf'' = Some False"
  "pcre_i ascii_lower ''b.o'' ''Marion Cotillard'' = Some False"
  "pcre_i ascii_lower ''b.o'' ''Francaise'' = Some False"
  "pcre_i ascii_lower ''b.o'' ''Actrice francaise primee aux Oscars'' = Some False"
  "pcre_i ascii_lower ''b.o'' ''La Mome'' = Some False"
  "pcre_i ascii_lower ''b.o'' ''Biographie'' = Some True"
  "pcre_i ascii_lower ''b.o'' ''Film biographique sur Edith Piaf'' = Some True"
  by (simp_all add: pcre_i_def in_fragment_def operator_chars_def line_breaks_def atom_i_def
      ascii_lower_def)

lemma dot_samples:
  assumes "implements_pcre_i cf rx valid" and "ascii_folding cf"
    and "valid ''mar.on''" and "valid ''b.o''"
  shows "rx ''mar.on'' ''Marion Cotillard''"
    and "\<not> rx ''mar.on'' ''Francaise''"
    and "\<not> rx ''mar.on'' ''La Mome''"
    and "\<not> rx ''mar.on'' ''Biographie''"
    and "\<not> rx ''mar.on'' ''Film biographique sur Edith Piaf''"
    and "\<not> rx ''b.o'' ''Marion Cotillard''"
    and "\<not> rx ''b.o'' ''Francaise''"
    and "\<not> rx ''b.o'' ''Actrice francaise primee aux Oscars''"
    and "\<not> rx ''b.o'' ''La Mome''"
    and "rx ''b.o'' ''Biographie''"
    and "rx ''b.o'' ''Film biographique sur Edith Piaf''"
  using ascii_eval [OF assms(1,2,3) ascii_samples(1) ascii_samples(3) dot_finds_marion]
    ascii_eval [OF assms(1,2,3) ascii_samples(1) ascii_samples(4) pcre_i_samples(1)]
    ascii_eval [OF assms(1,2,3) ascii_samples(1) ascii_samples(6) pcre_i_samples(2)]
    ascii_eval [OF assms(1,2,3) ascii_samples(1) ascii_samples(7) pcre_i_samples(3)]
    ascii_eval [OF assms(1,2,3) ascii_samples(1) ascii_samples(8) pcre_i_samples(4)]
    ascii_eval [OF assms(1,2,4) ascii_samples(2) ascii_samples(3) pcre_i_samples(5)]
    ascii_eval [OF assms(1,2,4) ascii_samples(2) ascii_samples(4) pcre_i_samples(6)]
    ascii_eval [OF assms(1,2,4) ascii_samples(2) ascii_samples(5) pcre_i_samples(7)]
    ascii_eval [OF assms(1,2,4) ascii_samples(2) ascii_samples(6) pcre_i_samples(8)]
    ascii_eval [OF assms(1,2,4) ascii_samples(2) ascii_samples(7) pcre_i_samples(9)]
    ascii_eval [OF assms(1,2,4) ascii_samples(2) ascii_samples(8) pcre_i_samples(10)]
  by simp_all


lemma text_query_shapes:
  assumes "s \<noteq> []"
  shows "get_actors_query (all_actors\<lparr>get_actors_params.search := Some s\<rparr>)
           = [Or [(''nom'', Regex_i s), (''nationalite'', Regex_i s), (''biographie'', Regex_i s)]]"
    and "get_actors_query (all_actors\<lparr>get_actors_params.nom := Some s\<rparr>)
           = [Field ''nom'' (Regex_i s)]"
    and "get_actors_query (all_actors\<lparr>get_actors_params.nationalite := Some s\<rparr>)
           = [Field ''nationalite'' (Regex_i s)]"
    and "get_movies_query (all_movies\<lparr>get_movies_params.search := Some s\<rparr>)
           = [Or [(''nom'', Regex_i s), (''genre'', Regex_i s), (''description'', Regex_i s)]]"
    and "get_movies_query (all_movies\<lparr>get_movies_params.nom := Some s\<rparr>)
           = [Field ''nom'' (Regex_i s)]"
    and "get_movies_query (all_movies\<lparr>get_movies_params.genre := Some s\<rparr>)
           = [Field ''genre'' (Regex_i s)]"
  using assms
  by (simp_all add: get_actors_query_def get_movies_query_def all_actors_def all_movies_def
      age_filter_def)

lemma listing_is_find:
  "Query_limit (get_actors_params.limit pa) = Inr n \<Longrightarrow> 0 \<le> n \<Longrightarrow>
   query_accepted (regex_valid e) (get_actors_query pa) \<Longrightarrow>
   get_actors e d pa =
     Inr (take (nat n)
       (filter (\<lambda>a. matches (regex_i e) (get_actors_query pa) (Actor_dict a)) (actors d)))"
  "Query_limit (get_movies_params.limit pm) = Inr n \<Longrightarrow> 0 \<le> n \<Longrightarrow>
   query_accepted (regex_valid e) (get_movies_query pm) \<Longrightarrow>
   get_movies e d pm =
     Inr (take (nat n)
       (filter (\<lambda>m. matches (regex_i e) (get_movies_query pm) (Movie_dict m)) (movies d)))"
  by (simp_all add: get_actors_def get_movies_def find_to_list_def)

lemma global_search_is_find:
  "global_search e d q =
     (if regex_valid e q
      then Inr (take 10 (filter
                  (\<lambda>a. matches (regex_i e)
                     [Or [(''nom'', Regex_i q), (''nationalite'', Regex_i q),
                          (''biographie'', Regex_i q)]] (Actor_dict a))
                  (actors d)),
                take 10 (filter
                  (\<lambda>m. matches (regex_i e)
                     [Or [(''nom'', Regex_i q), (''genre'', Regex_i q),
                          (''description'', Regex_i q)]] (Movie_dict m))
                  (movies d)))
      else Inl InternalServerError)"
  by (simp add: global_search_def Let_def find_to_list_def query_accepted_def)

lemma only_filter [simp]:
  "get_actors_params.limit (all_actors\<lparr>get_actors_params.search := x\<rparr>) = None"
  "get_actors_params.limit (all_actors\<lparr>get_actors_params.nom := x\<rparr>) = None"
  "get_actors_params.limit (all_actors\<lparr>get_actors_params.nationalite := x\<rparr>) = None"
  "get_movies_params.limit (all_movies\<lparr>get_movies_params.search := x\<rparr>) = None"
  "get_movies_params.limit (all_movies\<lparr>get_movies_params.nom := x\<rparr>) = None"
  "get_movies_params.limit (all_movies\<lparr>get_movies_params.genre := x\<rparr>) = None"
  by (simp_all add: all_actors_def all_movies_def)

lemma sample_fields:
  "actors sample_db = [sample_actor]" "movies sample_db = [sample_movie]"
  "Actor.nom sample_actor = ''Marion Cotillard''"
  "Actor.nationalite sample_actor = Some ''Francaise''"
  "Actor.biographie sample_actor = Some ''Actrice francaise primee aux Oscars''"
  "Movie.nom sample_movie = ''La Mome''"
  "Movie.genre sample_movie = Some ''Biographie''"
  "Movie.description sample_movie = Some ''Film biographique sur Edith Piaf''"
  by (simp_all add: sample_db_def sample_actor_def sample_movie_def)

lemma dot_listings:
  assumes "implements_pcre_i cf (regex_i e) (regex_valid e)" and "ascii_folding cf"
    and "regex_valid e ''mar.on''" and "regex_valid e ''b.o''"
  shows "get_actors e sample_db (all_actors\<lparr>get_actors_params.search := Some ''mar.on''\<rparr>)
           = Inr [sample_actor]"
    and "get_actors e sample_db (all_actors\<lparr>get_actors_params.nom := Some ''mar.on''\<rparr>)
           = Inr [sample_actor]"
    and "get_actors e sample_db (all_actors\<lparr>get_actors_params.nationalite := Some ''mar.on''\<rparr>)
           = Inr []"
    and "get_movies e sample_db (all_movies\<lparr>get_movies_params.search := Some ''b.o''\<rparr>)
           = Inr [sample_movie]"
    and "get_movies e sample_db (all_movies\<lparr>get_movies_params.genre := Some ''b.o''\<rparr>)
           = Inr [sample_movie]"
    and "get_movies e sample_db (all_movies\<lparr>get_movies_params.nom := Some ''b.o''\<rparr>)
           = Inr []"
  using dot_samples [OF assms] assms(3,4)
  by (simp_all add: get_actors_def get_movies_def Query_limit_def find_to_list_def
      text_query_shapes query_accepted_def matches_single Actor_lookups Movie_lookups
      sample_fields)

lemma dot_global_search:
  assumes "implements_pcre_i cf (regex_i e) (regex_valid e)" and "ascii_folding cf"
    and "regex_valid e ''mar.on''" and "regex_valid e ''b.o''"
  shows "global_search e sample_db ''mar.on'' = Inr ([sample_actor], [])"
    and "global_search e sample_db ''b.o'' = Inr ([], [sample_movie])"
  using dot_samples [OF assms] assms(3,4)
  by (simp_all add: global_search_is_find matches_single Actor_lookups Movie_lookups
      sample_fields)


text \<open>
  C9. Every text parameter of the two listings is placed in the query as the pattern of a
  \<^verbatim>\<open>$regex\<close> condition: the search text on each of the three searched fields, a name,
  nationality or genre filter on its own field. A listing is the store's answer to that
  query, and the global search is the store's answer to the search query built from
  \<^verbatim>\<open>q\<close>, for actors and for movies; a pattern the store refuses makes the global search
  fail. With any engine that implements the fragment, folds the ASCII letters as every
  engine does and accepts the two patterns: \<^verbatim>\<open>mar.on\<close> finds the actor named
  \<^verbatim>\<open>Marion Cotillard\<close>, whose name has no dot, as search text, as name filter and in the
  global search, and finds nothing as nationality filter; \<^verbatim>\<open>b.o\<close> finds the movie of
  genre \<^verbatim>\<open>Biographie\<close> as search text, as genre filter and in the global search, and
  finds nothing as name filter.
\<close>

theorem search_text_is_a_pattern:
  assumes "implements_pcre_i cf (regex_i e) (regex_valid e)" and "ascii_folding cf"
    and "regex_valid e ''mar.on''" and "regex_valid e ''b.o''"
  shows
    "(s \<noteq> [] \<longrightarrow>
        get_actors_query (all_actors\<lparr>get_actors_params.search := Some s\<rparr>)
          = [Or [(''nom'', Regex_i s), (''nationalite'', Regex_i s), (''biographie'', Regex_i s)]]
      \<and> get_actors_query (all_actors\<lparr>get_actors_params.nom := Some s\<rparr>)
          = [Field ''nom'' (Regex_i s)]
      \<and> get_actors_query (all_actors\<lparr>get_actors_params.nationalite := Some s\<rparr>)
          = [Field ''nationalite'' (Regex_i s)]
      \<and> get_movies_query (all_movies\<lparr>get_movies_params.search := Some s\<rparr>)
          = [Or [(''nom'', Regex_i s), (''genre'', Regex_i s), (''description'', Regex_i s)]]
      \<and> get_movies_query (all_movies\<lparr>get_movies_params.nom := Some s\<rparr>)
          = [Field ''nom'' (Regex_i s)]
      \<and> get_movies_query (all_movies\<lparr>get_movies_params.genre := Some s\<rparr>)
          = [Field ''genre'' (Regex_i s)])
     \<and> (Query_limit (get_actors_params.limit pa) = Inr n \<and> 0 \<le> n
         \<and> query_accepted (regex_valid e) (get_actors_query pa) \<longrightarrow>
        get_actors e d pa =
          Inr (take (nat n)
            (filter (\<lambda>a. matches (regex_i e) (get_actors_query pa) (Actor_dict a)) (actors d))))
     \<and> (Query_limit (get_movies_params.limit pm) = Inr k \<and> 0 \<le> k
         \<and> query_accepted (regex_valid e) (get_movies_query pm) \<longrightarrow>
        get_movies e d pm =
          Inr (take (nat k)
            (filter (\<lambda>m. matches (regex_i e) (get_movies_query pm) (Movie_dict m)) (movies d))))
     \<and> global_search e d q =
         (if regex_valid e q
          then Inr (take 10 (filter
                      (\<lambda>a. matches (regex_i e)
                         [Or [(''nom'', Regex_i q), (''nationalite'', Regex_i q),
                              (''biographie'', Regex_i q)]] (Actor_dict a))
                      (actors d)),
                    take 10 (filter
                      (\<lambda>m. matches (regex_i e)
                         [Or [(''nom'', Regex_i q), (''genre'', Regex_i q),
                              (''description'', Regex_i q)]] (Movie_dict m))
                      (movies d)))
          else Inl InternalServerError)
     \<and> Actor.nom sample_actor = ''Marion Cotillard''
     \<and> CHR ''.'' \<notin> set ''Marion Cotillard''
     \<and> get_actors e sample_db (all_actors\<lparr>get_actors_params.search := Some ''mar.on''\<rparr>)
         = Inr [sample_actor]
     \<and> get_actors e sample_db (all_actors\<lparr>get_actors_params.nom := Some ''mar.on''\<rparr>)
         = Inr [sample_actor]
     \<and> get_actors e sample_db (all_actors\<lparr>get_actors_params.nationalite := Some ''mar.on''\<rparr>)
         = Inr []
     \<and> Movie.genre sample_movie = Some ''Biographie''
     \<and> CHR ''.'' \<notin> set ''Biographie''
     \<and> get_movies e sample_db (all_movies\<lparr>get_movies_params.search := Some ''b.o''\<rparr>)
         = Inr [sample_movie]
     \<and> get_movies e sample_db (all_movies\<lparr>get_movies_params.genre := Some ''b.o''\<rparr>)
         = Inr [sample_movie]
     \<and> get_movies e sample_db (all_movies\<lparr>get_movies_params.nom := Some ''b.o''\<rparr>)
         = Inr []
     \<and> global_search e sample_db ''mar.on'' = Inr ([sample_actor], [])
     \<and> global_search e sample_db ''b.o'' = Inr ([], [sample_movie])"
proof -
  have a: "CHR ''.'' \<notin> set ''Marion Cotillard''" "CHR ''.'' \<notin> set ''Biographie''"
    by simp_all
  have sh: "s \<noteq> [] \<longrightarrow>
        get_actors_query (all_actors\<lparr>get_actors_params.search := Some s\<rparr>)
          = [Or [(''nom'', Regex_i s), (''nationalite'', Regex_i s), (''biographie'', Regex_i s)]]
      \<and> get_actors_query (all_actors\<lparr>get_actors_params.nom := Some s\<rparr>)
          = [Field ''nom'' (Regex_i s)]
      \<and> get_actors_query (all_actors\<lparr>get_actors_params.nationalite := Some s\<rparr>)
          = [Field ''nationalite'' (Regex_i s)]
      \<and> get_movies_query (all_movies\<lparr>get_movies_params.search := Some s\<rparr>)
          = [Or [(''nom'', Regex_i s), (''genre'', Regex_i s), (''description'', Regex_i s)]]
      \<and> get_movies_query (all_movies\<lparr>get_movies_params.nom := Some s\<rparr>)
          = [Field ''nom'' (Regex_i s)]
      \<and> get_movies_query (all_movies\<lparr>get_movies_params.genre := Some s\<rparr>)
          = [Field ''genre'' (Regex_i s)]"
    using text_query_shapes [of s] by blast
  have la: "Query_limit (get_actors_params.limit pa) = Inr n \<and> 0 \<le> n
         \<and> query_accepted (regex_valid e) (get_actors_query pa) \<longrightarrow>
        get_actors e d pa =
          Inr (take (nat n)
            (filter (\<lambda>a. matches (regex_i e) (get_actors_query pa) (Actor_dict a)) (actors d)))"
    using listing_is_find(1) [of pa n e d] by blast
  have lm: "Query_limit (get_movies_params.limit pm) = Inr k \<and> 0 \<le> k
         \<and> query_accepted (regex_valid e) (get_movies_query pm) \<longrightarrow>
        get_movies e d pm =
          Inr (take (nat k)
            (filter (\<lambda>m. matches (regex_i e) (get_movies_query pm) (Movie_dict m)) (movies d)))"
    using listing_is_find(2) [of pm k e d] by blast
  note g = global_search_is_find [of e d q]
  note i = sample_fields(3) sample_fields(7) a dot_listings [OF assms] dot_global_search [OF assms]
  show ?thesis
    by (intro conjI) (rule sh la lm g i)+
qed

lemma ascii_folding_ascii_lower: "ascii_folding ascii_lower"
  by (simp add: ascii_folding_def)

theorem search_text_is_a_pattern_witness:
  "implements_pcre_i ascii_lower (regex_i sample_env) (regex_valid sample_env)
   \<and> ascii_folding ascii_lower
   \<and> regex_valid sample_env ''mar.on''
   \<and> regex_valid sample_env ''b.o''
   \<and> get_actors_query (all_actors\<lparr>get_actors_params.nom := Some ''mar.on''\<rparr>)
       = [Field ''nom'' (Regex_i ''mar.on'')]
   \<and> get_actors sample_env sample_db
        (all_actors\<lparr>get_actors_params.search := Some ''mar.on''\<rparr>) = Inr [sample_actor]
   \<and> get_actors sample_env sample_db
        (all_actors\<lparr>get_actors_params.nationalite := Some ''mar.on''\<rparr>) = Inr []
   \<and> get_movies sample_env sample_db
        (all_movies\<lparr>get_movies_params.genre := Some ''b.o''\<rparr>) = Inr [sample_movie]
   \<and> global_search sample_env sample_db ''mar.on'' = Inr ([sample_actor], [])
   \<and> global_search sample_env sample_db ''b.o'' = Inr ([], [sample_movie])"
proof -
  note t = search_text_is_a_pattern [OF sample_engine(1) ascii_folding_ascii_lower
      sample_engine(3) sample_engine(4), of "''mar.on''" all_actors 50 sample_db all_movies 50
      "''mar.on''"]
  have n: "''mar.on'' \<noteq> []" by simp
  from t n sample_engine ascii_folding_ascii_lower show ?thesis by blast
qed

end
